theory Spec2Isabelle
  imports Complex_Main "HOL-Library.Sublist" "HOL-Library.Log_Nat"
begin

section \<open>JavaScript values and exceptions\<close>

text \<open>
  The two page components of MedDocExtractor (the multimodal one, which owns
  \<^verbatim>\<open>fetchWithRetry\<close>, and the two-stage one in \<^verbatim>\<open>src/app/page.js\<close>) read JSON
  documents that a remote service sends and test them with JavaScript's own notions of
  property access, optional chaining and truthiness. Those notions are modelled first.

  A value that \<^verbatim>\<open>JSON.parse\<close> or \<^verbatim>\<open>response.json()\<close> can produce is a \<open>json\<close>; an
  object is the association list of its own properties (the first binding of a key is the
  one that counts). JavaScript's \<^verbatim>\<open>undefined\<close> is \<open>None\<close> of \<open>js_value\<close>.
  A number in a JSON value is the real that the parser produced.
\<close>

datatype json =
    JNull
  | JBool bool
  | JNum real
  | JStr string
  | JArr "json list"
  | JObj "(string \<times> json) list"

type_synonym js_value = "json option"

subsection \<open>Numbers\<close>

text \<open>
  The language computes in IEEE 754 binary64. A number is a real (one of the finitely many
  binary64 numbers), an infinity, or NaN; the sign of zero is not told apart. \<open>fl x\<close>
  is the real \<open>x\<close> rounded to the nearest binary64 number, ties to the even significand,
  and to an infinity when the rounded value would reach \<open>2 ^ 1024\<close>. In the binade
  \<open>[2 ^ e, 2 ^ (e + 1))\<close> the binary64 numbers are the multiples of \<open>2 ^ (e - 52)\<close>, and
  below \<open>2 ^ -1022\<close> the multiples of \<open>2 ^ -1074\<close>: \<open>expo x\<close> is the \<open>e\<close> of a positive
  \<open>x\<close> and \<open>ulp x\<close> the spacing around it.
\<close>

datatype js_number = Num real | PosInf | NegInf | NaN

definition rne :: "real \<Rightarrow> int" where
  \<comment> \<open>the nearest integer, a tie going to the even one\<close>
  "rne q =
     (let f = \<lfloor>q\<rfloor>; d = q - of_int f
      in if d < 1 / 2 then f else if 1 / 2 < d then f + 1 else if even f then f else f + 1)"

definition expo :: "real \<Rightarrow> int" where
  "expo x = (if 1 \<le> x then bitlen \<lfloor>x\<rfloor> - 1 else - bitlen (\<lceil>1 / x\<rceil> - 1))"

definition ulp :: "real \<Rightarrow> real" where
  "ulp a = 2 powi (max (expo a) (- 1022) - 52)"

definition nearest :: "real \<Rightarrow> real" where
  "nearest a = of_int (rne (a / ulp a)) * ulp a"

definition fl :: "real \<Rightarrow> js_number" where
  "fl x =
     (if x = 0 then Num 0
      else if 2 powi 1024 \<le> nearest \<bar>x\<bar> then (if 0 < x then PosInf else NegInf)
      else Num (if 0 < x then nearest \<bar>x\<bar> else - nearest \<bar>x\<bar>))"

definition is_double :: "real \<Rightarrow> bool" where
  \<comment> \<open>\<open>x\<close> is a binary64 number\<close>
  "is_double x = (fl x = Num x)"

fun mul64 :: "js_number \<Rightarrow> js_number \<Rightarrow> js_number" where
  \<comment> \<open>\<^verbatim>\<open>x * y\<close>\<close>
  "mul64 (Num a) (Num b) = fl (a * b)"
| "mul64 (Num a) PosInf = (if 0 < a then PosInf else if a < 0 then NegInf else NaN)"
| "mul64 (Num a) NegInf = (if 0 < a then NegInf else if a < 0 then PosInf else NaN)"
| "mul64 PosInf (Num b) = (if 0 < b then PosInf else if b < 0 then NegInf else NaN)"
| "mul64 NegInf (Num b) = (if 0 < b then NegInf else if b < 0 then PosInf else NaN)"
| "mul64 PosInf PosInf = PosInf"
| "mul64 PosInf NegInf = NegInf"
| "mul64 NegInf PosInf = NegInf"
| "mul64 NegInf NegInf = PosInf"
| "mul64 NaN y = NaN"
| "mul64 x NaN = NaN"

fun add64 :: "js_number \<Rightarrow> js_number \<Rightarrow> js_number" where
  \<comment> \<open>\<^verbatim>\<open>x + y\<close> on numbers\<close>
  "add64 (Num a) (Num b) = fl (a + b)"
| "add64 (Num a) PosInf = PosInf"
| "add64 (Num a) NegInf = NegInf"
| "add64 PosInf (Num b) = PosInf"
| "add64 NegInf (Num b) = NegInf"
| "add64 PosInf PosInf = PosInf"
| "add64 NegInf NegInf = NegInf"
| "add64 PosInf NegInf = NaN"
| "add64 NegInf PosInf = NaN"
| "add64 NaN y = NaN"
| "add64 x NaN = NaN"

fun div64 :: "js_number \<Rightarrow> js_number \<Rightarrow> js_number" where
  \<comment> \<open>\<^verbatim>\<open>x / y\<close>; a zero divisor counts as positive zero\<close>
  "div64 (Num a) (Num b) =
     (if b = 0 then (if 0 < a then PosInf else if a < 0 then NegInf else NaN)
      else fl (a / b))"
| "div64 (Num a) PosInf = Num 0"
| "div64 (Num a) NegInf = Num 0"
| "div64 PosInf (Num b) = (if 0 \<le> b then PosInf else NegInf)"
| "div64 NegInf (Num b) = (if 0 \<le> b then NegInf else PosInf)"
| "div64 PosInf PosInf = NaN"
| "div64 PosInf NegInf = NaN"
| "div64 NegInf PosInf = NaN"
| "div64 NegInf NegInf = NaN"
| "div64 NaN y = NaN"
| "div64 x NaN = NaN"

fun Math_round :: "js_number \<Rightarrow> js_number" where
  \<comment> \<open>the nearest integer, a tie going up; the result is a binary64 number\<close>
  "Math_round (Num x) = Num (of_int \<lfloor>x + 1 / 2\<rfloor>)"
| "Math_round y = y"

fun at_least :: "real \<Rightarrow> js_number \<Rightarrow> bool" where
  \<comment> \<open>\<open>a \<le> y\<close> for a number \<open>y\<close> that may be infinite\<close>
  "at_least a (Num y) = (a \<le> y)"
| "at_least a PosInf = True"
| "at_least a NegInf = False"
| "at_least a NaN = False"

text \<open>
  An exception object: its constructor name, its \<^verbatim>\<open>message\<close>, and the \<^verbatim>\<open>status\<close>
  property that \<^verbatim>\<open>fetchWithRetry\<close> attaches to the errors it wants retried
  (\<open>None\<close> when the property is absent).
\<close>

record js_error =
  err_name :: string
  message :: string
  err_status :: "nat option"

definition Error :: "string \<Rightarrow> js_error" where
  \<comment> \<open>\<^verbatim>\<open>new Error(msg)\<close>\<close>
  "Error msg = \<lparr>err_name = ''Error'', message = msg, err_status = None\<rparr>"

definition TypeError_read :: "string \<Rightarrow> string \<Rightarrow> js_error" where
  \<comment> \<open>reading property \<open>k\<close> of \<^verbatim>\<open>null\<close> or \<^verbatim>\<open>undefined\<close>; the wording is V8's\<close>
  "TypeError_read what k =
     \<lparr>err_name = ''TypeError'',
      message = ''Cannot read properties of '' @ what @ '' (reading '' @ [CHR 0x27] @ k
                  @ [CHR 0x27] @ '')'',
      err_status = None\<rparr>"

definition SyntaxError :: "string \<Rightarrow> js_error" where
  \<comment> \<open>what a JSON parser throws; the message is the engine's\<close>
  "SyntaxError msg = \<lparr>err_name = ''SyntaxError'', message = msg, err_status = None\<rparr>"

definition progress_event :: js_error where
  \<comment> \<open>the event object that \<^verbatim>\<open>reader.onerror\<close> hands to \<^verbatim>\<open>reject\<close>: it has no
      \<^verbatim>\<open>message\<close> and no \<^verbatim>\<open>status\<close>\<close>
  "progress_event = \<lparr>err_name = ''ProgressEvent'', message = [], err_status = None\<rparr>"

definition digit_char :: "nat \<Rightarrow> char" where
  "digit_char d = ''0123456789'' ! d"

function string_of_nat :: "nat \<Rightarrow> string" where
  \<comment> \<open>the decimal digits of a non-negative integer, as a template literal prints it\<close>
  "string_of_nat n =
     (if n < 10 then [digit_char n]
      else string_of_nat (n div 10) @ [digit_char (n mod 10)])"
  by pat_completeness auto
termination
  by (relation "measure id") auto

declare string_of_nat.simps [simp del]

definition digit_value :: "char \<Rightarrow> nat" where
  "digit_value c = of_char c - 48"

definition nat_of_string :: "string \<Rightarrow> nat" where
  \<comment> \<open>reading decimal digits back\<close>
  "nat_of_string s = foldl (\<lambda>n c. 10 * n + digit_value c) 0 s"

fun truthy :: "js_value \<Rightarrow> bool" where
  "truthy None = False"
| "truthy (Some JNull) = False"
| "truthy (Some (JBool b)) = b"
| "truthy (Some (JNum x)) = (x \<noteq> 0)"
| "truthy (Some (JStr s)) = (s \<noteq> [])"
| "truthy (Some (JArr xs)) = True"
| "truthy (Some (JObj kvs)) = True"

text \<open>
  \<open>own_prop v k\<close> is \<^verbatim>\<open>v.k\<close> for a value \<open>v\<close> that is neither \<^verbatim>\<open>null\<close> nor
  \<^verbatim>\<open>undefined\<close> and a key \<open>k\<close> that is not an array index. The keys the program reads
  (\<^verbatim>\<open>candidates\<close>, \<^verbatim>\<open>content\<close>, \<^verbatim>\<open>parts\<close>, \<^verbatim>\<open>text\<close>, \<^verbatim>\<open>error\<close>, \<^verbatim>\<open>message\<close>,
  \<^verbatim>\<open>transcribedText\<close>, \<^verbatim>\<open>structuredData\<close>, \<^verbatim>\<open>responses\<close>, \<^verbatim>\<open>textAnnotations\<close>,
  \<^verbatim>\<open>description\<close>, \<^verbatim>\<open>length\<close>) are on no built-in prototype except \<^verbatim>\<open>length\<close>,
  which arrays and strings have. \<open>own_index v n\<close> is \<^verbatim>\<open>v[n]\<close>.
\<close>

fun own_prop :: "json \<Rightarrow> string \<Rightarrow> js_value" where
  "own_prop (JObj kvs) k = map_of kvs k"
| "own_prop (JArr xs) k = (if k = ''length'' then Some (JNum (real (length xs))) else None)"
| "own_prop (JStr s) k = (if k = ''length'' then Some (JNum (real (length s))) else None)"
| "own_prop _ k = None"

fun own_index :: "json \<Rightarrow> nat \<Rightarrow> js_value" where
  "own_index (JObj kvs) n = map_of kvs (string_of_nat n)"
| "own_index (JArr xs) n = (if n < length xs then Some (xs ! n) else None)"
| "own_index (JStr s) n = (if n < length s then Some (JStr [s ! n]) else None)"
| "own_index _ n = None"

fun get_member :: "js_value \<Rightarrow> string \<Rightarrow> js_error + js_value" where
  \<comment> \<open>\<^verbatim>\<open>v.k\<close>: a TypeError on \<^verbatim>\<open>null\<close> and \<^verbatim>\<open>undefined\<close>\<close>
  "get_member None k = Inl (TypeError_read ''undefined'' k)"
| "get_member (Some JNull) k = Inl (TypeError_read ''null'' k)"
| "get_member (Some v) k = Inr (own_prop v k)"

fun get_element :: "js_value \<Rightarrow> nat \<Rightarrow> js_error + js_value" where
  \<comment> \<open>\<^verbatim>\<open>v[n]\<close>\<close>
  "get_element None n = Inl (TypeError_read ''undefined'' (string_of_nat n))"
| "get_element (Some JNull) n = Inl (TypeError_read ''null'' (string_of_nat n))"
| "get_element (Some v) n = Inr (own_index v n)"

fun opt_member :: "js_value \<Rightarrow> string \<Rightarrow> js_value" where
  \<comment> \<open>\<^verbatim>\<open>v?.k\<close>: \<^verbatim>\<open>undefined\<close> on \<^verbatim>\<open>null\<close> and \<^verbatim>\<open>undefined\<close>\<close>
  "opt_member None k = None"
| "opt_member (Some JNull) k = None"
| "opt_member (Some v) k = own_prop v k"

fun opt_element :: "js_value \<Rightarrow> nat \<Rightarrow> js_value" where
  \<comment> \<open>\<^verbatim>\<open>v?.[n]\<close>\<close>
  "opt_element None n = None"
| "opt_element (Some JNull) n = None"
| "opt_element (Some v) n = own_index v n"

text \<open>
  \<open>to_string\<close> is the conversion a template literal and the argument of
  \<^verbatim>\<open>JSON.parse\<close> go through. How a number prints is the platform's business
  (\<open>numstr\<close>, the engine's \<^verbatim>\<open>Number.prototype.toString\<close>); an array prints its elements separated by commas, with \<^verbatim>\<open>null\<close>
  elements printed as nothing.
\<close>

fun join_comma :: "string list \<Rightarrow> string" where
  "join_comma [] = []"
| "join_comma [s] = s"
| "join_comma (s # t # ss) = s @ '','' @ join_comma (t # ss)"

fun to_string :: "(js_number \<Rightarrow> string) \<Rightarrow> json \<Rightarrow> string" where
  "to_string numstr JNull = ''null''"
| "to_string numstr (JBool b) = (if b then ''true'' else ''false'')"
| "to_string numstr (JNum x) = numstr (Num x)"
| "to_string numstr (JStr s) = s"
| "to_string numstr (JArr xs) =
     join_comma (map (\<lambda>x. if x = JNull then [] else to_string numstr x) xs)"
| "to_string numstr (JObj kvs) = ''[object Object]''"

fun value_to_string :: "(js_number \<Rightarrow> string) \<Rightarrow> js_value \<Rightarrow> string" where
  "value_to_string numstr None = ''undefined''"
| "value_to_string numstr (Some v) = to_string numstr v"

section \<open>The platform\<close>

text \<open>
  An HTTP response as the program sees it: its status and what \<^verbatim>\<open>response.json()\<close>
  settles to: the parsed body, or \<open>Inl msg\<close> when the body is not JSON and the promise
  rejects with a SyntaxError of message \<open>msg\<close>. \<^verbatim>\<open>response.ok\<close> is the Fetch
  standard's: the status is in 200..299.
\<close>

record response =
  status :: nat
  body :: "string + json"

definition ok :: "response \<Rightarrow> bool" where
  "ok r = (200 \<le> status r \<and> status r \<le> 299)"

datatype fetch_outcome = Rejects js_error | Resolves response

record js_file =
  fbytes :: "nat list"
  ftype :: string

text \<open>
  The browser functions the program calls are parameters of the model. \<open>fetch p k url\<close>
  is what the \<open>k\<close>-th network call of a run (counted from 0) settles to when it goes to
  \<open>url\<close>; the request body is built from the prompt and the document and is not read
  again by the program, so it is not part of the model. \<open>Math_random p k\<close> is the
  \<open>k\<close>-th number drawn; the browser draws binary64 numbers of \<open>[0, 1)\<close>, which the
  theorems that need it assume. \<open>JSON_parse p s\<close> is the parsed value, or \<open>Inl msg\<close> for a
  SyntaxError. \<open>readAsDataURL p f\<close> is \<^verbatim>\<open>reader.result\<close> at \<^verbatim>\<open>onload\<close>, or \<open>None\<close>
  when the reader fires \<^verbatim>\<open>onerror\<close> instead.
\<close>

record platform =
  fetch :: "nat \<Rightarrow> string \<Rightarrow> fetch_outcome"
  Math_random :: "nat \<Rightarrow> real"
  JSON_parse :: "string \<Rightarrow> string + json"
  Number_toString :: "js_number \<Rightarrow> string"
  readAsDataURL :: "js_file \<Rightarrow> string option"

text \<open>What a run does to the outside world, in order.\<close>

datatype event =
    NetFetch string
  | SetTimeout js_number
  | ConsoleLog string
  | ConsoleErrorValue string js_value
  | ConsoleErrorExn string js_error
  | JsonParse string

fun fetches :: "event list \<Rightarrow> string list" where
  "fetches [] = []"
| "fetches (NetFetch u # es) = u # fetches es"
| "fetches (e # es) = fetches es"

fun delays :: "event list \<Rightarrow> js_number list" where
  "delays [] = []"
| "delays (SetTimeout d # es) = d # delays es"
| "delays (e # es) = delays es"

fun parses :: "event list \<Rightarrow> string list" where
  "parses [] = []"
| "parses (JsonParse s # es) = s # parses es"
| "parses (e # es) = parses es"

fun timeline :: "event list \<Rightarrow> event list" where
  \<comment> \<open>the network calls and the timers of a run, in their order\<close>
  "timeline [] = []"
| "timeline (NetFetch u # es) = NetFetch u # timeline es"
| "timeline (SetTimeout d # es) = SetTimeout d # timeline es"
| "timeline (e # es) = timeline es"

section \<open>The resilient caller: fetchWithRetry\<close>

definition truthy_status :: "js_error \<Rightarrow> bool" where
  \<comment> \<open>\<^verbatim>\<open>error.status\<close> as a condition\<close>
  "truthy_status e = (case err_status e of None \<Rightarrow> False | Some n \<Rightarrow> n \<noteq> 0)"

definition retryable :: "response \<Rightarrow> bool" where
  \<comment> \<open>\<^verbatim>\<open>response.status >= 500 || response.status === 429\<close>\<close>
  "retryable r = (status r \<ge> 500 \<or> status r = 429)"

definition status_error :: "nat \<Rightarrow> js_error" where
  \<comment> \<open>the error thrown for a retryable response, with the status attached\<close>
  "status_error st =
     \<lparr>err_name = ''Error'', message = ''API returned status '' @ string_of_nat st,
      err_status = Some st\<rparr>"

definition api_error :: "platform \<Rightarrow> string \<Rightarrow> json \<Rightarrow> js_error" where
  \<comment> \<open>the error built from \<^verbatim>\<open>errorData.error?.message || "Unknown error"\<close>, or the
      TypeError of reading \<^verbatim>\<open>error\<close> from \<^verbatim>\<open>null\<close>\<close>
  "api_error p pre errorData =
     (case get_member (Some errorData) ''error'' of
        Inl e \<Rightarrow> e
      | Inr err \<Rightarrow>
          (let m = opt_member err ''message''
           in Error (pre @ (if truthy m then value_to_string (Number_toString p) m
                               else ''Unknown error''))))"

definition attempt :: "platform \<Rightarrow> fetch_outcome \<Rightarrow> js_error + response" where
  \<comment> \<open>the body of the \<^verbatim>\<open>try\<close> block, from the settled \<^verbatim>\<open>fetch\<close> on\<close>
  "attempt p out =
     (case out of
        Rejects e \<Rightarrow> Inl e
      | Resolves response \<Rightarrow>
          if retryable response then Inl (status_error (status response))
          else if \<not> ok response then
            (case body response of
               Inl msg \<Rightarrow> Inl (SyntaxError msg)
             | Inr errorData \<Rightarrow> Inl (api_error p ''API error: '' errorData))
          else Inr response)"

definition backoff_delay :: "nat \<Rightarrow> real \<Rightarrow> js_number" where
  \<comment> \<open>\<^verbatim>\<open>2 ** i * 1000 + Math.random() * 1000\<close> with the random number \<open>r\<close>: a power,
      two products and a sum, each rounded\<close>
  "backoff_delay i r = add64 (mul64 (fl (2 ^ i)) (Num 1000)) (mul64 (Num r) (Num 1000))"

definition retry_log :: "platform \<Rightarrow> nat \<Rightarrow> js_error \<Rightarrow> js_number \<Rightarrow> string" where
  "retry_log p i error delay =
     ''Attempt '' @ string_of_nat (i + 1) @ '' failed with status ''
       @ (case err_status error of None \<Rightarrow> ''undefined'' | Some n \<Rightarrow> string_of_nat n)
       @ ''. Retrying in '' @ Number_toString p (Math_round (div64 delay (Num 1000)))
       @ ''s...''"

definition unavailable :: "nat \<Rightarrow> js_error" where
  "unavailable st =
     Error (''The AI service is temporarily unavailable (Error '' @ string_of_nat st
            @ ''). Please try again in a few moments.'')"

definition after_loop :: "js_error option \<Rightarrow> js_error" where
  \<comment> \<open>the code after the \<^verbatim>\<open>for\<close> loop; \<open>None\<close> is a \<^verbatim>\<open>lastError\<close> never assigned\<close>
  "after_loop lastError =
     (case lastError of
        None \<Rightarrow> TypeError_read ''undefined'' ''status''
      | Some e \<Rightarrow>
          (case err_status e of
             None \<Rightarrow> e
           | Some st \<Rightarrow> if st \<noteq> 0 then unavailable st else e))"

text \<open>
  The \<^verbatim>\<open>for\<close> loop, entered at index \<open>i\<close> with the current \<^verbatim>\<open>lastError\<close>. The
  function is called once in a run and nothing else calls \<^verbatim>\<open>fetch\<close> in that variant,
  so the fetch of iteration \<open>i\<close> is network call number \<open>i\<close> and its jitter is random
  draw number \<open>i\<close>. The budget \<open>retries\<close> is an integer, and it and the counter stay
  below \<open>2 ^ 53\<close>, where counting is exact; the \<^verbatim>\<open>options\<close> argument only
  travels to \<^verbatim>\<open>fetch\<close> and is left out with the request. \<^verbatim>\<open>break\<close> leads to the code
  after the loop, as leaving the loop by its condition does.
\<close>

function fetchWithRetry_loop ::
  "platform \<Rightarrow> string \<Rightarrow> int \<Rightarrow> nat \<Rightarrow> js_error option
     \<Rightarrow> (js_error + response) \<times> event list" where
  "fetchWithRetry_loop p url retries i lastError =
     (if int i < retries then
        (case attempt p (fetch p i url) of
           Inr response \<Rightarrow> (Inr response, [NetFetch url])
         | Inl error \<Rightarrow>
             if \<not> truthy_status error then (Inl error, [NetFetch url])
             else if int i = retries - 1 then (Inl (after_loop (Some error)), [NetFetch url])
             else
               (let delay = backoff_delay i (Math_random p i)
                in case fetchWithRetry_loop p url retries (i + 1) (Some error) of
                     (res, tr) \<Rightarrow>
                       (res, [NetFetch url, ConsoleLog (retry_log p i error delay),
                              SetTimeout delay] @ tr)))
      else (Inl (after_loop lastError), []))"
  by pat_completeness auto
termination
  by (relation "measure (\<lambda>(p, url, retries, i, lastError). nat (retries - int i))") auto

declare fetchWithRetry_loop.simps [simp del]

definition fetchWithRetry ::
  "platform \<Rightarrow> string \<Rightarrow> int \<Rightarrow> (js_error + response) \<times> event list" where
  "fetchWithRetry p url retries = fetchWithRetry_loop p url retries 0 None"

section \<open>The multimodal variant: one call to Gemini\<close>

text \<open>
  \<open>response_text data\<close> is
  \<^verbatim>\<open>data.candidates?.[0]?.content?.parts?.[0]?.text\<close>: the first access is not
  optional and throws on a \<^verbatim>\<open>null\<close> body.
\<close>

definition response_text :: "json \<Rightarrow> js_error + js_value" where
  "response_text data =
     (case get_member (Some data) ''candidates'' of
        Inl e \<Rightarrow> Inl e
      | Inr c \<Rightarrow>
          Inr (opt_member
                 (opt_element (opt_member (opt_member (opt_element c 0) ''content'') ''parts'') 0)
                 ''text''))"

record extraction =
  extractedText :: js_value
  extractedData :: js_value

definition invalid_structure :: js_error where
  "invalid_structure = Error ''Invalid response structure from Gemini API.''"

definition invalid_json :: js_error where
  "invalid_json = Error ''Gemini API did not return valid JSON. See raw text for details.''"

definition parse_failed_label :: string where
  "parse_failed_label = ''Failed to parse JSON from Gemini response:''"

definition parse_extraction ::
  "platform \<Rightarrow> js_value \<Rightarrow> (js_error + extraction) \<times> event list" where
  \<comment> \<open>the \<^verbatim>\<open>try\<close>/\<^verbatim>\<open>catch\<close> around \<^verbatim>\<open>JSON.parse(responseText)\<close>: whatever is thrown
      inside, by the parser or by reading a property of \<^verbatim>\<open>null\<close>, is logged with the
      text and replaced by one fixed error\<close>
  "parse_extraction p responseText =
     (let s = value_to_string (Number_toString p) responseText
      in case (case JSON_parse p s of
                 Inl msg \<Rightarrow> Inl (SyntaxError msg)
               | Inr parsedJson \<Rightarrow>
                   (case get_member (Some parsedJson) ''transcribedText'' of
                      Inl e \<Rightarrow> Inl e
                    | Inr t \<Rightarrow>
                        (case get_member (Some parsedJson) ''structuredData'' of
                           Inl e \<Rightarrow> Inl e
                         | Inr d \<Rightarrow> Inr \<lparr>extractedText = t, extractedData = d\<rparr>)))
         of
           Inl e \<Rightarrow>
             (Inl invalid_json, [JsonParse s, ConsoleErrorValue parse_failed_label responseText])
         | Inr res \<Rightarrow> (Inr res, [JsonParse s]))"

definition gemini_pro_url :: "string \<Rightarrow> string" where
  "gemini_pro_url apiKey =
     ''https://generativelanguage.googleapis.com/v1beta/models/gemini-1.5-pro-latest:generateContent?key=''
       @ apiKey"

text \<open>
  The API key is the component's state, read by the function from its closure; here it is
  an argument. The image and its MIME type go into the request only. The call of
  \<^verbatim>\<open>fetchWithRetry\<close> passes no budget, so the default of 4 applies.
\<close>

definition extractMedicalDataWithGemini ::
  "platform \<Rightarrow> string \<Rightarrow> string option \<Rightarrow> string
     \<Rightarrow> (js_error + extraction) \<times> event list" where
  "extractMedicalDataWithGemini p apiKey imageBase64Content mimeType =
     (case fetchWithRetry p (gemini_pro_url apiKey) 4 of
        (Inl e, tr) \<Rightarrow> (Inl e, tr)
      | (Inr response, tr) \<Rightarrow>
          (case body response of
             Inl msg \<Rightarrow> (Inl (SyntaxError msg), tr)
           | Inr data \<Rightarrow>
               (case response_text data of
                  Inl e \<Rightarrow> (Inl e, tr)
                | Inr responseText \<Rightarrow>
                    if \<not> truthy responseText then (Inl invalid_structure, tr)
                    else (case parse_extraction p responseText of
                            (res, tr') \<Rightarrow> (res, tr @ tr')))))"

subsection \<open>The click handler\<close>

fun split_comma :: "string \<Rightarrow> string list" where
  \<comment> \<open>\<^verbatim>\<open>s.split(",")\<close>\<close>
  "split_comma [] = [[]]"
| "split_comma (c # cs) =
     (if c = CHR '','' then [] # split_comma cs
      else (case split_comma cs of
              [] \<Rightarrow> [[c]]
            | w # ws \<Rightarrow> (c # w) # ws))"

definition toBase64 :: "platform \<Rightarrow> js_file \<Rightarrow> js_error + string option" where
  \<comment> \<open>resolves with \<^verbatim>\<open>reader.result.split(",")[1]\<close>, which is \<^verbatim>\<open>undefined\<close> when
      the data URL has no comma\<close>
  "toBase64 p f =
     (case readAsDataURL p f of
        None \<Rightarrow> Inl progress_event
      | Some result \<Rightarrow>
          (let parts = split_comma result
           in Inr (if 1 < length parts then Some (parts ! 1) else None)))"

text \<open>
  The component's state. \<open>the_file\<close> is the source's \<^verbatim>\<open>file\<close>: \<open>None\<close> is
  \<^verbatim>\<open>null\<close>, no file chosen. The preview URL plays no part in the handlers and is left
  out.
\<close>

record ui_state =
  apiKey :: string
  the_file :: "js_file option"
  statusMessage :: string
  errorMessage :: string
  rawText :: js_value
  structuredData :: js_value
  isLoading :: bool

definition report :: "js_error \<Rightarrow> ui_state \<Rightarrow> ui_state" where
  \<comment> \<open>\<^verbatim>\<open>setErrorMessage(error.message || "An unknown error occurred.")\<close>\<close>
  "report error s =
     s\<lparr>errorMessage :=
         (if message error \<noteq> [] then message error else ''An unknown error occurred.'')\<rparr>"

definition finalize :: "ui_state \<Rightarrow> ui_state" where
  \<comment> \<open>the \<^verbatim>\<open>finally\<close> block\<close>
  "finalize s = s\<lparr>isLoading := False, statusMessage := []\<rparr>"

definition processing_label :: string where
  "processing_label = ''Error during processing:''"

definition handleProcessClick :: "platform \<Rightarrow> ui_state \<Rightarrow> ui_state \<times> event list" where
  "handleProcessClick p s =
     (case the_file s of
        None \<Rightarrow> (s\<lparr>errorMessage := ''Please upload a file first.''\<rparr>, [])
      | Some f \<Rightarrow>
          if apiKey s = [] then (s\<lparr>errorMessage := ''Please enter your Google AI API key.''\<rparr>, [])
          else
            (let s1 = s\<lparr>errorMessage := [], rawText := Some (JStr []),
                        structuredData := Some JNull, isLoading := True,
                        statusMessage := ''Processing document...''\<rparr>
             in case (case toBase64 p f of
                        Inl e \<Rightarrow> (Inl e, [])
                      | Inr base64Content \<Rightarrow>
                          extractMedicalDataWithGemini p (apiKey s) base64Content (ftype f))
                of
                  (Inl error, tr) \<Rightarrow>
                    (finalize (report error s1), tr @ [ConsoleErrorExn processing_label error])
                | (Inr res, tr) \<Rightarrow>
                    (finalize (s1\<lparr>rawText := extractedText res,
                                   structuredData := extractedData res\<rparr>), tr)))"

section \<open>The two-stage variant: Vision OCR, then Gemini\<close>

text \<open>
  Here \<^verbatim>\<open>fetch\<close> is called directly. The Vision call is the first network call of a
  run (number 0) and the Gemini call the second (number 1).
\<close>

definition vision_url :: "string \<Rightarrow> string" where
  "vision_url key = ''https://vision.googleapis.com/v1/images:annotate?key='' @ key"

definition gemini_flash_url :: "string \<Rightarrow> string" where
  "gemini_flash_url key =
     ''https://generativelanguage.googleapis.com/v1beta/models/gemini-1.5-flash-latest:generateContent?key=''
       @ key"

definition no_text_found :: js_error where
  "no_text_found = Error ''No text found in the document by Vision API.''"

definition vision_text :: "json \<Rightarrow> js_error + js_value" where
  \<comment> \<open>from \<^verbatim>\<open>data.responses[0]?.textAnnotations\<close> to
      \<^verbatim>\<open>textAnnotations[0].description\<close>\<close>
  "vision_text data =
     (case get_member (Some data) ''responses'' of
        Inl e \<Rightarrow> Inl e
      | Inr rs \<Rightarrow>
          (case get_element rs 0 of
             Inl e \<Rightarrow> Inl e
           | Inr r0 \<Rightarrow>
               (let textAnnotations = opt_member r0 ''textAnnotations''
                in if \<not> truthy textAnnotations
                      \<or> opt_member textAnnotations ''length'' = Some (JNum 0)
                   then Inl no_text_found
                   else (case get_element textAnnotations 0 of
                           Inl e \<Rightarrow> Inl e
                         | Inr a0 \<Rightarrow> get_member a0 ''description''))))"

definition detectTextWithVisionAPI ::
  "platform \<Rightarrow> string \<Rightarrow> string option \<Rightarrow> (js_error + js_value) \<times> event list" where
  "detectTextWithVisionAPI p key imageBase64Content =
     ((case fetch p 0 (vision_url key) of
         Rejects e \<Rightarrow> Inl e
       | Resolves response \<Rightarrow>
           if \<not> ok response then
             (case body response of
                Inl msg \<Rightarrow> Inl (SyntaxError msg)
              | Inr errorData \<Rightarrow> Inl (api_error p ''Vision API error: '' errorData))
           else
             (case body response of
                Inl msg \<Rightarrow> Inl (SyntaxError msg)
              | Inr data \<Rightarrow> vision_text data)),
      [NetFetch (vision_url key)])"

definition parse_structured ::
  "platform \<Rightarrow> js_value \<Rightarrow> (js_error + json) \<times> event list" where
  \<comment> \<open>\<^verbatim>\<open>return JSON.parse(responseText)\<close> in its \<^verbatim>\<open>try\<close>/\<^verbatim>\<open>catch\<close>\<close>
  "parse_structured p responseText =
     (let s = value_to_string (Number_toString p) responseText
      in case JSON_parse p s of
           Inl msg \<Rightarrow>
             (Inl invalid_json, [JsonParse s, ConsoleErrorValue parse_failed_label responseText])
         | Inr parsedJson \<Rightarrow> (Inr parsedJson, [JsonParse s]))"

definition extractMedicalDataWithGemini_twostage ::
  "platform \<Rightarrow> string \<Rightarrow> js_value \<Rightarrow> (js_error + json) \<times> event list" where
  "extractMedicalDataWithGemini_twostage p key ocrText =
     (case fetch p 1 (gemini_flash_url key) of
        Rejects e \<Rightarrow> (Inl e, [NetFetch (gemini_flash_url key)])
      | Resolves response \<Rightarrow>
          if \<not> ok response then
            (case body response of
               Inl msg \<Rightarrow> (Inl (SyntaxError msg), [NetFetch (gemini_flash_url key)])
             | Inr errorData \<Rightarrow>
                 (Inl (api_error p ''Gemini API error: '' errorData),
                  [NetFetch (gemini_flash_url key)]))
          else
            (case body response of
               Inl msg \<Rightarrow> (Inl (SyntaxError msg), [NetFetch (gemini_flash_url key)])
             | Inr data \<Rightarrow>
                 (case response_text data of
                    Inl e \<Rightarrow> (Inl e, [NetFetch (gemini_flash_url key)])
                  | Inr responseText \<Rightarrow>
                      if \<not> truthy responseText
                      then (Inl invalid_structure, [NetFetch (gemini_flash_url key)])
                      else (case parse_structured p responseText of
                              (res, tr) \<Rightarrow> (res, NetFetch (gemini_flash_url key) # tr)))))"

definition handleProcessClick_twostage ::
  "platform \<Rightarrow> ui_state \<Rightarrow> ui_state \<times> event list" where
  "handleProcessClick_twostage p s =
     (case the_file s of
        None \<Rightarrow> (s\<lparr>errorMessage := ''Please upload a file first.''\<rparr>, [])
      | Some f \<Rightarrow>
          if apiKey s = [] then (s\<lparr>errorMessage := ''Please enter your Google AI API key.''\<rparr>, [])
          else
            (let s1 = s\<lparr>errorMessage := [], rawText := Some (JStr []),
                        structuredData := Some JNull, isLoading := True\<rparr>
             in case toBase64 p f of
                  Inl error \<Rightarrow>
                    (finalize (report error s1), [ConsoleErrorExn processing_label error])
                | Inr base64Content \<Rightarrow>
                    (let s2 = s1\<lparr>statusMessage := ''Step 1/2: Extracting text with Vision API...''\<rparr>
                     in case detectTextWithVisionAPI p (apiKey s) base64Content of
                          (Inl error, tr) \<Rightarrow>
                            (finalize (report error s2),
                             tr @ [ConsoleErrorExn processing_label error])
                        | (Inr detectedText, tr) \<Rightarrow>
                            (let s3 = s2\<lparr>rawText := detectedText,
                                        statusMessage :=
                                          ''Step 2/2: Structuring data with Gemini API...''\<rparr>
                             in case extractMedicalDataWithGemini_twostage p (apiKey s)
                                       detectedText of
                                  (Inl error, tr') \<Rightarrow>
                                    (finalize (report error s3),
                                     tr @ tr' @ [ConsoleErrorExn processing_label error])
                                | (Inr structured, tr') \<Rightarrow>
                                    (finalize (s3\<lparr>structuredData := Some structured\<rparr>),
                                     tr @ tr')))))"

section \<open>Platforms for the examples\<close>

text \<open>
  A platform whose \<open>k\<close>-th network call settles to \<open>outcome k\<close>, whose parser knows
  the texts listed in \<open>parsed\<close> and rejects every other, and whose random numbers are
  all one half. Its file reader yields the data URL of a file without content, and no
  number is ever printed in the examples.
\<close>

definition demo_platform :: "(nat \<Rightarrow> fetch_outcome) \<Rightarrow> (string \<times> json) list \<Rightarrow> platform" where
  "demo_platform outcome parsed =
     \<lparr>fetch = (\<lambda>k url. outcome k),
      Math_random = (\<lambda>k. 1 / 2),
      JSON_parse = (\<lambda>s. case map_of parsed s of
                            None \<Rightarrow> Inl ''Unexpected token''
                          | Some v \<Rightarrow> Inr v),
      Number_toString = (\<lambda>x. ''0''),
      readAsDataURL = (\<lambda>f. Some (''data:'' @ ftype f @ '';base64,''))\<rparr>"

definition always_503 :: platform where
  "always_503 = demo_platform (\<lambda>k. Resolves \<lparr>status = 503, body = Inl ''Unexpected token''\<rparr>) []"



definition flaky_then_ok :: platform where
  "flaky_then_ok =
     demo_platform
       (\<lambda>k. if k < 3 then Resolves \<lparr>status = 503, body = Inl ''Unexpected token''\<rparr>
            else Resolves \<lparr>status = 200, body = Inr (JObj [])\<rparr>) []"

definition network_error :: js_error where
  \<comment> \<open>what \<^verbatim>\<open>fetch\<close> rejects with when the connection fails\<close>
  "network_error = \<lparr>err_name = ''TypeError'', message = ''Failed to fetch'', err_status = None\<rparr>"

definition offline :: platform where
  "offline = demo_platform (\<lambda>k. Rejects network_error) []"

subsection \<open>Backends for the examples\<close>

text \<open>
  \<open>envelope t\<close> is the envelope of a generation call with \<open>t\<close> in the place of the
  generated text; \<open>replies_200 data parsed\<close> answers every call with status 200 and the
  body \<open>data\<close>.
\<close>

definition envelope :: "json \<Rightarrow> json" where
  "envelope t =
     JObj [(''candidates'',
            JArr [JObj [(''content'', JObj [(''parts'', JArr [JObj [(''text'', t)]])])]])]"

definition replies_200 :: "json \<Rightarrow> (string \<times> json) list \<Rightarrow> platform" where
  "replies_200 data parsed = demo_platform (\<lambda>k. Resolves \<lparr>status = 200, body = Inr data\<rparr>) parsed"

definition blocked_200 :: platform where
  \<open>blocked_200 = replies_200 (JObj [(''promptFeedback'', JObj [(''blockReason'', JStr ''SAFETY'')])]) []\<close>

definition null_body_200 :: platform where
  \<comment> \<open>status 200 with the body \<^verbatim>\<open>null\<close>\<close>
  "null_body_200 = replies_200 JNull []"

definition garbage_200 :: platform where
  "garbage_200 = replies_200 (envelope (JStr ''<html>oops'')) []"

definition sparse_text :: string where
  \<open>sparse_text = ''{"transcribedText":"x","structuredData":{}}''\<close>

definition sparse_200 :: platform where
  "sparse_200 =
     replies_200 (envelope (JStr sparse_text))
       [(sparse_text, JObj [(''transcribedText'', JStr ''x''), (''structuredData'', JObj [])])]"

definition null_200 :: platform where
  "null_200 = replies_200 (envelope (JStr ''null'')) [(''null'', JNull)]"

definition array_200 :: platform where
  "array_200 = replies_200 (envelope (JStr ''[]'')) [(''[]'', JArr [])]"

definition full_text :: string where
  \<open>full_text = ''{"transcribedText":"x","structuredData":{"patientInfo":{"name":null,"dob":null,"reportDate":null},"diagnosis":null,"prescriptions":[],"testResults":[]}}''\<close>

definition full_data :: json where
  "full_data =
     JObj [(''patientInfo'', JObj [(''name'', JNull), (''dob'', JNull), (''reportDate'', JNull)]),
           (''diagnosis'', JNull), (''prescriptions'', JArr []), (''testResults'', JArr [])]"

definition full_200 :: platform where
  "full_200 =
     replies_200 (envelope (JStr full_text))
       [(full_text, JObj [(''transcribedText'', JStr ''x''), (''structuredData'', full_data)])]"

definition html_413 :: platform where
  "html_413 =
     demo_platform
       (\<lambda>k. Resolves \<lparr>status = 413,
                        body = Inl ''Unexpected token < in JSON at position 0''\<rparr>) []"

definition rate_limited :: platform where
  "rate_limited =
     demo_platform
       (\<lambda>k. Resolves \<lparr>status = 429,
                        body = Inr (JObj [(''error'', JObj [(''message'', JStr ''Quota exceeded'')])])\<rparr>)
       []"

definition empty_document :: js_file where
  "empty_document = \<lparr>fbytes = [], ftype = ''image/png''\<rparr>"

definition fresh_ui :: "string \<Rightarrow> js_file option \<Rightarrow> ui_state" where
  \<comment> \<open>the component's initial state, with a key typed in and a file chosen or not\<close>
  "fresh_ui k f =
     \<lparr>apiKey = k, the_file = f, statusMessage = [], errorMessage = [],
      rawText = Some (JStr []), structuredData = Some JNull, isLoading = False\<rparr>"

section \<open>The declared output schema\<close>

text \<open>
  The prompt declares the shape of \<^verbatim>\<open>structuredData\<close>: \<^verbatim>\<open>patientInfo\<close> with
  \<^verbatim>\<open>name\<close>, \<^verbatim>\<open>dob\<close> and \<^verbatim>\<open>reportDate\<close>, then \<^verbatim>\<open>diagnosis\<close>,
  \<^verbatim>\<open>prescriptions\<close> and \<^verbatim>\<open>testResults\<close>. \<open>complete_schema d\<close> holds when every one
  of these keys is present in \<open>d\<close>, whatever its value (\<^verbatim>\<open>null\<close> and \<^verbatim>\<open>[]\<close> count as
  present).
\<close>

definition has_key :: "js_value \<Rightarrow> string \<Rightarrow> bool" where
  "has_key d k = (opt_member d k \<noteq> None)"

definition complete_schema :: "js_value \<Rightarrow> bool" where
  "complete_schema d =
     (has_key d ''patientInfo''
      \<and> has_key (opt_member d ''patientInfo'') ''name''
      \<and> has_key (opt_member d ''patientInfo'') ''dob''
      \<and> has_key (opt_member d ''patientInfo'') ''reportDate''
      \<and> has_key d ''diagnosis''
      \<and> has_key d ''prescriptions''
      \<and> has_key d ''testResults'')"

section \<open>Properties of binary64 rounding\<close>

lemma rne_of_int [simp]: "rne (of_int k) = k"
  by (simp add: rne_def)

lemma rne_ge: "of_int k \<le> q \<Longrightarrow> k \<le> rne q"
proof -
  assume "of_int k \<le> q"
  then have "k \<le> \<lfloor>q\<rfloor>" by (simp add: le_floor_iff)
  then show ?thesis by (auto simp: rne_def Let_def)
qed

lemma rne_le: "q \<le> of_int k \<Longrightarrow> rne q \<le> k"
proof -
  assume a: "q \<le> of_int k"
  show ?thesis
  proof (cases "q = of_int k")
    case True
    then show ?thesis by simp
  next
    case False
    with a have "q < of_int k" by simp
    then have "\<lfloor>q\<rfloor> < k" by (simp add: floor_less_iff)
    then show ?thesis by (auto simp: rne_def Let_def)
  qed
qed

lemma expo_bounds:
  assumes "0 < x"
  shows "2 powi (expo x) \<le> x \<and> x < 2 powi (expo x + 1)"
proof (cases "1 \<le> x")
  case True
  define n where "n = \<lfloor>x\<rfloor>"
  have n: "0 < n" "of_int n \<le> x" "x < of_int n + 1"
    using True by (simp_all add: n_def)
  define b where "b = bitlen n"
  have bb: "2 ^ nat (b - 1) \<le> n" "n < 2 ^ nat b"
    using bitlen_bounds [OF n(1)] by (simp_all add: b_def)
  have b1: "1 \<le> b" using n(1) by (simp add: b_def bitlen_alt_def)
  have e: "expo x = b - 1" using True by (simp add: expo_def n_def b_def)
  have lo: "(2::real) powi (b - 1) \<le> x"
  proof -
    have "(2::real) powi (b - 1) = 2 ^ nat (b - 1)" using b1 by (simp add: power_int_def)
    also have "\<dots> = of_int (2 ^ nat (b - 1))" by simp
    also have "\<dots> \<le> of_int n" using bb(1) by (simp only: of_int_le_iff)
    finally show ?thesis using n(2) by linarith
  qed
  have hi: "x < (2::real) powi b"
  proof -
    have "n + 1 \<le> 2 ^ nat b" using bb(2) by simp
    then have "of_int (n + 1) \<le> (of_int (2 ^ nat b) :: real)" by (simp only: of_int_le_iff)
    then have "of_int n + 1 \<le> (2::real) ^ nat b" by simp
    also have "\<dots> = 2 powi b" using b1 by (simp add: power_int_def)
    finally show ?thesis using n(3) by linarith
  qed
  show ?thesis using lo hi by (simp add: e)
next
  case False
  define y where "y = 1 / x"
  have y: "1 < y" using assms False by (simp add: y_def)
  define m where "m = \<lceil>y\<rceil> - 1"
  have m: "0 < m" "of_int m < y" "y \<le> of_int m + 1"
    using y by (simp_all add: m_def) linarith+
  define b where "b = bitlen m"
  have bb: "2 ^ nat (b - 1) \<le> m" "m < 2 ^ nat b"
    using bitlen_bounds [OF m(1)] by (simp_all add: b_def)
  have b1: "1 \<le> b" using m(1) by (simp add: b_def bitlen_alt_def)
  have e: "expo x = - b" using False by (simp add: expo_def m_def b_def y_def)
  have ylo: "(2::real) ^ nat (b - 1) < y"
  proof -
    have "(2::real) ^ nat (b - 1) = of_int (2 ^ nat (b - 1))" by simp
    also have "\<dots> \<le> of_int m" using bb(1) by (simp only: of_int_le_iff)
    finally show ?thesis using m(2) by linarith
  qed
  have yhi: "y \<le> (2::real) ^ nat b"
  proof -
    have "m + 1 \<le> 2 ^ nat b" using bb(2) by simp
    then have "of_int (m + 1) \<le> (of_int (2 ^ nat b) :: real)" by (simp only: of_int_le_iff)
    then show ?thesis using m(3) by simp
  qed
  have x: "x = 1 / y" using assms by (simp add: y_def)
  have lo: "(2::real) powi (- b) \<le> x"
  proof -
    have "(2::real) powi (- b) = 1 / 2 ^ nat b"
      using b1 by (simp add: power_int_def field_simps)
    also have "\<dots> \<le> 1 / y" using yhi y by (simp add: frac_le)
    finally show ?thesis by (simp add: x)
  qed
  have hi: "x < (2::real) powi (- b + 1)"
  proof -
    have "1 / y < 1 / 2 ^ nat (b - 1)" using ylo by (simp add: frac_less2)
    also have "\<dots> = (2::real) powi (- b + 1)"
      using b1 by (auto simp: power_int_def field_simps nat_diff_distrib)
    finally show ?thesis by (simp add: x)
  qed
  show ?thesis using lo hi by (simp add: e)
qed

lemma pow2_less_imp:
  fixes x :: real
  assumes "2 powi a \<le> x" and "x < 2 powi b"
  shows "a < b"
proof (rule ccontr)
  assume "\<not> a < b"
  then have "b \<le> a" by simp
  then have "(2::real) powi b \<le> 2 powi a" by (rule power_int_increasing) simp
  with assms show False by linarith
qed

lemma expo_unique:
  assumes "0 < x" and "2 powi e \<le> x" and "x < 2 powi (e + 1)"
  shows "expo x = e"
proof -
  from expo_bounds [OF assms(1)]
  have b: "2 powi (expo x) \<le> x" "x < 2 powi (expo x + 1)" by simp_all
  have "expo x < e + 1" using pow2_less_imp [OF b(1) assms(3)] .
  moreover have "e < expo x + 1" using pow2_less_imp [OF assms(2) b(2)] .
  ultimately show ?thesis by simp
qed

lemma expo_mono:
  assumes "0 < a" and "a \<le> b"
  shows "expo a \<le> expo b"
proof -
  from expo_bounds [OF assms(1)] have "2 powi (expo a) \<le> a" by simp
  moreover from expo_bounds [of b] assms have "b < 2 powi (expo b + 1)" by simp
  ultimately have "expo a < expo b + 1"
    using assms(2) pow2_less_imp [of "expo a" b "expo b + 1"] by linarith
  then show ?thesis by simp
qed

lemma ulp_pos [simp]: "0 < ulp a"
  by (simp add: ulp_def)

lemma ulp_nonneg [simp]: "0 \<le> ulp a"
  by (simp add: ulp_def)

lemma ulp_nonzero [simp]: "ulp a \<noteq> 0"
  by (simp add: ulp_def)

lemma nearest_fixed_div: "nearest a = a \<Longrightarrow> a / ulp a = of_int (rne (a / ulp a))"
proof -
  assume "nearest a = a"
  then have "of_int (rne (a / ulp a)) * ulp a = a" by (simp add: nearest_def)
  then have "of_int (rne (a / ulp a)) * ulp a / ulp a = a / ulp a" by simp
  then show ?thesis by simp
qed

lemma nearest_nonneg: "0 < x \<Longrightarrow> 0 \<le> nearest x"
proof -
  assume "0 < x"
  then have "of_int 0 \<le> x / ulp x" by simp
  then have "0 \<le> rne (x / ulp x)" by (rule rne_ge)
  then show ?thesis by (simp add: nearest_def)
qed

lemma fl_pos:
  "0 < x \<Longrightarrow> fl x = (if 2 powi 1024 \<le> nearest x then PosInf else Num (nearest x))"
  by (simp add: fl_def)

lemma fl_Num_pos:
  assumes "fl a = Num a" and "0 < a"
  shows "nearest a = a" and "a < 2 powi 1024"
  using assms by (auto simp: fl_pos split: if_splits)

text \<open>An integer below \<open>2 ^ 53\<close> times a power of two in range is a binary64 number.\<close>

lemma fl_exact:
  assumes "0 < m" and "m < 2 ^ 53" and "- 1074 \<le> k"
    and "of_int m * 2 powi k < (2::real) powi 1024"
  shows "fl (of_int m * 2 powi k) = Num (of_int m * 2 powi k)"
proof -
  define x :: real where "x = of_int m * 2 powi k"
  have xpos: "0 < x" using assms(1) by (simp add: x_def)
  have "of_int m < (of_int (2 ^ 53) :: real)" using assms(2) by (simp only: of_int_less_iff)
  then have "x < 2 ^ 53 * 2 powi k" by (simp add: x_def)
  also have "\<dots> = 2 powi (k + 53)" by (simp add: power_int_add)
  finally have "x < 2 powi (k + 53)" .
  with expo_bounds [OF xpos] have "expo x < k + 53"
    using pow2_less_imp [of "expo x" x "k + 53"] by simp
  then have le: "max (expo x) (- 1022) - 52 \<le> k" using assms(3) by simp
  define d where "d = nat (k - (max (expo x) (- 1022) - 52))"
  have k: "k = (max (expo x) (- 1022) - 52) + int d" using le by (simp add: d_def)
  have hk: "2 powi k = ulp x * (2::real) ^ d"
    by (subst k) (simp add: ulp_def power_int_add)
  have "x = of_int m * 2 powi k" by (simp add: x_def)
  also have "\<dots> = of_int m * (ulp x * 2 ^ d)" by (simp only: hk)
  also have "\<dots> = of_int (m * 2 ^ d) * ulp x" by (simp add: mult_ac)
  finally have xm: "x = of_int (m * 2 ^ d) * ulp x" .
  then have "x / ulp x = of_int (m * 2 ^ d) * ulp x / ulp x" by simp
  then have "x / ulp x = of_int (m * 2 ^ d)" by simp
  then have "rne (x / ulp x) = m * 2 ^ d" by (simp only: rne_of_int)
  then have "nearest x = of_int (m * 2 ^ d) * ulp x" by (simp only: nearest_def)
  with xm have "nearest x = x" by simp
  then show ?thesis using xpos assms(4) by (simp add: fl_pos x_def)
qed

text \<open>Rounding never crosses a binary64 number.\<close>

lemma nearest_ge:
  assumes "nearest a = a" and "0 < a" and "a \<le> x"
  shows "a \<le> nearest x"
proof -
  have xpos: "0 < x" using assms by simp
  let ?Ea = "max (expo a) (- 1022)" and ?Ex = "max (expo x) (- 1022)"
  have ea: "expo a \<le> expo x" using expo_mono [OF assms(2,3)] .
  show ?thesis
  proof (cases "?Ea = ?Ex")
    case True
    then have u: "ulp a = ulp x" by (simp add: ulp_def)
    have "a / ulp x = of_int (rne (a / ulp x))"
      using nearest_fixed_div [OF assms(1)] by (simp add: u)
    moreover have "a / ulp x \<le> x / ulp x" using assms(3) by (simp add: divide_right_mono)
    ultimately have "of_int (rne (a / ulp x)) \<le> x / ulp x" by simp
    then have "rne (a / ulp x) \<le> rne (x / ulp x)" by (rule rne_ge)
    then have "(of_int (rne (a / ulp x)) :: real) \<le> of_int (rne (x / ulp x))"
      by (simp only: of_int_le_iff)
    then have "of_int (rne (a / ulp x)) * ulp x \<le> of_int (rne (x / ulp x)) * ulp x"
      by (rule mult_right_mono) simp
    moreover have "of_int (rne (a / ulp x)) * ulp x = a"
      using assms(1) by (simp add: nearest_def u)
    ultimately show ?thesis unfolding nearest_def by linarith
  next
    case False
    with ea have lt: "?Ea < ?Ex" by (auto simp: max_def split: if_splits)
    with ea have Ex: "?Ex = expo x" by (auto simp: max_def split: if_splits)
    have "expo a + 1 \<le> expo x" using lt Ex by (auto simp: max_def split: if_splits)
    then have "(2::real) powi (expo a + 1) \<le> 2 powi (expo x)"
      by (rule power_int_increasing) simp
    with expo_bounds [OF assms(2)] have a_lt: "a < 2 powi (expo x)" by simp
    have "(2::real) powi (expo x) = 2 ^ 52 * ulp x"
      by (simp add: ulp_def Ex power_int_diff)
    then have p: "(2::real) powi (expo x) = of_int (2 ^ 52) * ulp x" by simp
    have "2 powi (expo x) \<le> x" using expo_bounds [OF xpos] by simp
    then have "of_int (2 ^ 52) * ulp x \<le> x" using p by simp
    then have "of_int (2 ^ 52) \<le> x / ulp x" by (simp add: pos_le_divide_eq)
    then have "2 ^ 52 \<le> rne (x / ulp x)" by (rule rne_ge)
    then have "(of_int (2 ^ 52) :: real) \<le> of_int (rne (x / ulp x))"
      by (simp only: of_int_le_iff)
    then have "of_int (2 ^ 52) * ulp x \<le> of_int (rne (x / ulp x)) * ulp x"
      by (simp add: mult_right_mono)
    then have "2 powi (expo x) \<le> nearest x" using p by (simp add: nearest_def)
    with a_lt show ?thesis by simp
  qed
qed

lemma nearest_le:
  assumes "nearest b = b" and "0 < x" and "x \<le> b"
  shows "nearest x \<le> b"
proof -
  have bpos: "0 < b" using assms by simp
  let ?Ex = "max (expo x) (- 1022)" and ?Eb = "max (expo b) (- 1022)"
  have ea: "expo x \<le> expo b" using expo_mono [OF assms(2,3)] .
  show ?thesis
  proof (cases "?Ex = ?Eb")
    case True
    then have u: "ulp b = ulp x" by (simp add: ulp_def)
    have "b / ulp x = of_int (rne (b / ulp x))"
      using nearest_fixed_div [OF assms(1)] by (simp add: u)
    moreover have "x / ulp x \<le> b / ulp x" using assms(3) by (simp add: divide_right_mono)
    ultimately have "x / ulp x \<le> of_int (rne (b / ulp x))" by simp
    then have "rne (x / ulp x) \<le> rne (b / ulp x)" by (rule rne_le)
    then have "(of_int (rne (x / ulp x)) :: real) \<le> of_int (rne (b / ulp x))"
      by (simp only: of_int_le_iff)
    then have "of_int (rne (x / ulp x)) * ulp x \<le> of_int (rne (b / ulp x)) * ulp x"
      by (rule mult_right_mono) simp
    moreover have "of_int (rne (b / ulp x)) * ulp x = b"
      using assms(1) by (simp add: nearest_def u)
    ultimately show ?thesis unfolding nearest_def by linarith
  next
    case False
    with ea have lt: "?Ex < ?Eb" by (auto simp: max_def split: if_splits)
    with ea have Eb: "?Eb = expo b" by (auto simp: max_def split: if_splits)
    have "expo x + 1 \<le> ?Ex + 1" by simp
    then have "(2::real) powi (expo x + 1) \<le> 2 powi (?Ex + 1)"
      by (rule power_int_increasing) simp
    with expo_bounds [OF assms(2)] have x_lt: "x \<le> 2 powi (?Ex + 1)" by simp
    have "(2::real) powi (?Ex + 1) = 2 ^ 53 * ulp x"
      by (simp add: ulp_def power_int_diff power_int_add)
    then have p: "(2::real) powi (?Ex + 1) = of_int (2 ^ 53) * ulp x" by simp
    have "x \<le> of_int (2 ^ 53) * ulp x" using x_lt p by simp
    then have "x / ulp x \<le> of_int (2 ^ 53)" by (simp add: pos_divide_le_eq)
    then have "rne (x / ulp x) \<le> 2 ^ 53" by (rule rne_le)
    then have "(of_int (rne (x / ulp x)) :: real) \<le> of_int (2 ^ 53)"
      by (simp only: of_int_le_iff)
    then have "of_int (rne (x / ulp x)) * ulp x \<le> of_int (2 ^ 53) * ulp x"
      by (simp add: mult_right_mono)
    then have "nearest x \<le> 2 powi (?Ex + 1)" using p by (simp add: nearest_def)
    also have "\<dots> \<le> 2 powi (expo b)"
    proof -
      have "?Ex + 1 \<le> expo b" using lt Eb by (auto simp: max_def split: if_splits)
      then show ?thesis by (rule power_int_increasing) simp
    qed
    also have "\<dots> \<le> b" using expo_bounds [OF bpos] by simp
    finally show ?thesis .
  qed
qed




lemma rne_le_half: "q < of_int k + 1 / 2 \<Longrightarrow> rne q \<le> k"
proof -
  assume a: "q < of_int k + 1 / 2"
  then have "q < of_int (k + 1)" by simp
  then have "\<lfloor>q\<rfloor> < k + 1" by (simp only: floor_less_iff)
  then have f: "\<lfloor>q\<rfloor> \<le> k" by simp
  show ?thesis
  proof (cases "\<lfloor>q\<rfloor> = k")
    case True
    then have "q - of_int \<lfloor>q\<rfloor> < 1 / 2" using a by simp
    then show ?thesis using True by (simp add: rne_def)
  next
    case False
    with f have "\<lfloor>q\<rfloor> + 1 \<le> k" by simp
    then show ?thesis by (auto simp: rne_def Let_def)
  qed
qed


lemma fl_of_int:
  assumes "0 < n" and "n < 2 ^ 53"
  shows "fl (of_int n) = Num (of_int n)"
proof -
  have "(of_int n :: real) < of_int (2 ^ 53)" using assms(2) by (simp only: of_int_less_iff)
  then have "(of_int n :: real) < 2 powi 1024" by simp
  then show ?thesis using fl_exact [OF assms, of 0] by simp
qed

lemma fl_numeral: "(numeral w :: int) < 2 ^ 53 \<Longrightarrow> fl (numeral w) = Num (numeral w)"
  using fl_of_int [of "numeral w"] by simp

lemma fl_one: "fl 1 = Num 1"
  using fl_of_int [of 1] by simp

lemma fl_zero: "fl 0 = Num 0"
  by (simp add: fl_def)

lemma fl_pow2:
  assumes "i \<le> 1023"
  shows "fl (2 ^ i) = Num (2 ^ i)"
proof -
  have "int i < 1024" using assms by simp
  then have "(2::real) powi (int i) < 2 powi 1024"
    by (rule power_int_strict_increasing) simp
  then show ?thesis using fl_exact [of 1 "int i"] by simp
qed

lemma fl_nonneg:
  assumes "0 \<le> x"
  shows "fl x = PosInf \<or> (\<exists>y. fl x = Num y \<and> 0 \<le> y)"
proof (cases "x = 0")
  case True
  then show ?thesis by (simp add: fl_zero)
next
  case False
  with assms have "0 < x" by simp
  then show ?thesis using nearest_nonneg [of x] by (simp add: fl_pos)
qed

lemma fl_ge:
  assumes "is_double a" and "0 < a" and "a \<le> x"
  shows "at_least a (fl x)"
proof -
  have n: "nearest a = a" using fl_Num_pos(1) [of a] assms(1,2) by (simp add: is_double_def)
  have "0 < x" using assms by simp
  then show ?thesis using nearest_ge [OF n assms(2,3)] by (simp add: fl_pos)
qed

lemma fl_le:
  assumes "is_double b" and "0 < x" and "x \<le> b"
  shows "\<exists>y. fl x = Num y \<and> 0 \<le> y \<and> y \<le> b"
proof -
  have bpos: "0 < b" using assms by simp
  have n: "nearest b = b" and f: "b < 2 powi 1024"
    using fl_Num_pos [of b] assms(1) bpos by (simp_all add: is_double_def)
  have "nearest x \<le> b" using nearest_le [OF n assms(2,3)] .
  then show ?thesis using f nearest_nonneg [OF assms(2)] assms(2) by (simp add: fl_pos)
qed


text \<open>A binary64 number below 1 is at most \<open>1 - 2 ^ -53\<close>.\<close>

lemma double_below_one:
  assumes "is_double r" and "0 < r" and "r < 1"
  shows "r \<le> 1 - 1 / 2 ^ 53"
proof (cases "r < 1 / 2")
  case True
  then show ?thesis by simp
next
  case False
  then have "2 powi (- 1) \<le> r" by (simp add: power_int_minus)
  moreover have "r < 2 powi (- 1 + 1)" using assms(3) by simp
  ultimately have e: "expo r = - 1" using expo_unique [OF assms(2)] by blast
  then have u: "ulp r = 1 / 2 ^ 53" by (simp add: ulp_def power_int_minus field_simps)
  have n: "nearest r = r" using fl_Num_pos(1) [of r] assms(1,2) by (simp add: is_double_def)
  define k where "k = rne (r / ulp r)"
  have r: "r = of_int k / 2 ^ 53" using n by (simp add: nearest_def k_def u)
  then have "of_int k < (2::real) ^ 53" using assms(3) by simp
  then have "(of_int k :: real) < of_int (2 ^ 53)" by simp
  then have "k < 2 ^ 53" by (simp only: of_int_less_iff)
  then have "k \<le> 2 ^ 53 - 1" by simp
  then have "(of_int k :: real) \<le> of_int (2 ^ 53 - 1)" by (simp only: of_int_le_iff)
  then have "(of_int k :: real) \<le> 2 ^ 53 - 1" by simp
  then have "of_int k / 2 ^ 53 \<le> ((2::real) ^ 53 - 1) / 2 ^ 53" by (simp add: divide_right_mono)
  then show ?thesis by (simp add: r field_simps)
qed

lemma is_double_512: "is_double 512"
  using fl_numeral [of "num.Bit0 (num.Bit0 (num.Bit0 (num.Bit0 (num.Bit0 (num.Bit0 (num.Bit0 (num.Bit0 (num.Bit0 num.One))))))))"]
  by (simp add: is_double_def)

text \<open>The jitter \<^verbatim>\<open>Math.random() * 1000\<close> stays below 1000.\<close>

lemma jitter_bound:
  assumes "is_double r" and "0 \<le> r" and "r < 1"
  shows "\<exists>j. mul64 (Num r) (Num 1000) = Num j \<and> 0 \<le> j \<and> j < 1000"
proof (cases "r = 0")
  case True
  then show ?thesis by (simp add: fl_zero)
next
  case False
  with assms(2) have rpos: "0 < r" by simp
  define x where "x = r * 1000"
  have xpos: "0 < x" using rpos by (simp add: x_def)
  have xle: "x \<le> 1000 - 1000 / 2 ^ 53"
    using double_below_one [OF assms(1) rpos assms(3)] by (simp add: x_def)
  show ?thesis
  proof (cases "x \<le> 512")
    case True
    from fl_le [OF is_double_512 xpos True] show ?thesis
      by (auto simp: x_def)
  next
    case False
    then have lo: "2 powi 9 \<le> x" by simp
    have hi: "x < 2 powi (9 + 1)" using xle by simp
    have e: "expo x = 9" using expo_unique [OF xpos lo hi] .
    then have u: "ulp x = 1 / 2 ^ 43" by (simp add: ulp_def power_int_minus field_simps)
    have "x / ulp x \<le> (1000 - 1000 / 2 ^ 53) * 2 ^ 43" using xle by (simp add: u)
    also have "\<dots> < of_int (1000 * 2 ^ 43 - 1) + 1 / 2" by simp
    finally have "rne (x / ulp x) \<le> 1000 * 2 ^ 43 - 1" by (rule rne_le_half)
    then have "(of_int (rne (x / ulp x)) :: real) \<le> of_int (1000 * 2 ^ 43 - 1)"
      by (simp only: of_int_le_iff)
    then have "of_int (rne (x / ulp x)) * ulp x \<le> of_int (1000 * 2 ^ 43 - 1) * ulp x"
      by (rule mult_right_mono) simp
    then have "nearest x \<le> of_int (1000 * 2 ^ 43 - 1) / 2 ^ 43" by (simp add: nearest_def u)
    also have "\<dots> < 1000" by simp
    finally have n: "nearest x < 1000" .
    then have "nearest x < 2 powi 1024" by simp
    then show ?thesis using n nearest_nonneg [OF xpos] xpos by (simp add: fl_pos x_def)
  qed
qed

lemma is_double_base:
  assumes "i \<le> 1014"
  shows "is_double (2 ^ i * 1000)"
proof -
  have "(of_int 125 :: real) * 2 powi (int i + 3) < 2 ^ 7 * 2 powi (int i + 3)" by simp
  also have "\<dots> = 2 powi (int i + 10)" by (simp add: power_int_add)
  also have "\<dots> \<le> 2 powi 1024"
    using assms by (intro power_int_increasing) simp_all
  finally have "(of_int 125 :: real) * 2 powi (int i + 3) < 2 powi 1024" .
  then have f: "fl (of_int 125 * 2 powi (int i + 3)) = Num (of_int 125 * 2 powi (int i + 3))"
    by (intro fl_exact) simp_all
  have eq: "(of_int 125 :: real) * 2 powi (int i + 3) = 2 ^ i * 1000"
    by (simp add: power_int_add)
  show ?thesis unfolding is_double_def using f by (simp only: eq)
qed

lemma is_double_top:
  assumes "i \<le> 46"
  shows "is_double (2 ^ i * 1000 + 1000)"
proof -
  define m :: int where "m = 125 * (2 ^ i + 1)"
  have "(2::int) ^ i \<le> 2 ^ 46" using assms by (intro power_increasing) simp_all
  then have m2: "m < 2 ^ 53" by (simp add: m_def)
  have m1: "0 < m" unfolding m_def by (intro mult_pos_pos add_pos_pos) simp_all
  note m = m1 m2
  have "(of_int m :: real) < of_int (2 ^ 53)" using m(2) by (simp only: of_int_less_iff)
  then have "(of_int m :: real) * 2 powi 3 < 2 ^ 53 * 2 powi 3" by simp
  also have "\<dots> < 2 powi 1024" by simp
  finally have f: "fl (of_int m * 2 powi 3) = Num (of_int m * 2 powi 3)"
    using m by (intro fl_exact) simp_all
  have eq: "(of_int m :: real) * 2 powi 3 = 2 ^ i * 1000 + 1000"
    by (simp add: m_def)
  show ?thesis unfolding is_double_def using f by (simp only: eq)
qed

lemma base_exact:
  assumes "i \<le> 1014"
  shows "mul64 (fl (2 ^ i)) (Num 1000) = Num (2 ^ i * 1000)"
proof -
  have "fl (2 ^ i) = Num (2 ^ i)" using assms by (intro fl_pow2) simp
  then show ?thesis using is_double_base [OF assms] by (simp add: is_double_def)
qed

lemma backoff_at_least:
  assumes "i \<le> 1014" and "0 \<le> r"
  shows "at_least (2 ^ i * 1000) (backoff_delay i r)"
proof -
  have pos: "(0::real) < 2 ^ i * 1000" by simp
  from fl_nonneg [of "r * 1000"] assms(2)
  consider "fl (r * 1000) = PosInf" | j where "fl (r * 1000) = Num j" "0 \<le> j" by auto
  then show ?thesis
  proof cases
    case 1
    then show ?thesis by (simp add: backoff_delay_def base_exact [OF assms(1)])
  next
    case 2
    have "at_least (2 ^ i * 1000) (fl (2 ^ i * 1000 + j))"
      using 2(2) by (intro fl_ge [OF is_double_base [OF assms(1)] pos]) simp
    then show ?thesis using 2(1) by (simp add: backoff_delay_def base_exact [OF assms(1)])
  qed
qed

text \<open>
  The delay handed to \<^verbatim>\<open>setTimeout\<close> after attempt \<open>i\<close>: the jitter term is below 1000,
  the sum is between the base and the base plus 1000, both ends included.
\<close>

lemma backoff_bound:
  assumes "i \<le> 46" and "is_double r" and "0 \<le> r" and "r < 1"
  shows "\<exists>j d. mul64 (Num r) (Num 1000) = Num j \<and> 0 \<le> j \<and> j < 1000
             \<and> backoff_delay i r = Num d \<and> 2 ^ i * 1000 \<le> d \<and> d \<le> 2 ^ i * 1000 + 1000"
proof -
  obtain j where j: "mul64 (Num r) (Num 1000) = Num j" "0 \<le> j" "j < 1000"
    using jitter_bound [OF assms(2,3,4)] by blast
  have i: "i \<le> 1014" using assms(1) by simp
  have pos: "(0::real) < 2 ^ i * 1000 + j" using j(2) by (simp add: add_pos_nonneg)
  obtain d where d: "fl (2 ^ i * 1000 + j) = Num d" "d \<le> 2 ^ i * 1000 + 1000"
    using fl_le [OF is_double_top [OF assms(1)] pos] j(3) by auto
  have "at_least (2 ^ i * 1000) (fl (2 ^ i * 1000 + j))"
    using j(2) by (intro fl_ge [OF is_double_base [OF i]]) simp_all
  then have "2 ^ i * 1000 \<le> d" by (simp add: d(1))
  moreover have "backoff_delay i r = Num d"
    using j(1) d(1) by (simp add: backoff_delay_def base_exact [OF i])
  ultimately show ?thesis using j d(2) by blast
qed

lemma is_double_half: "is_double (1 / 2)"
  using fl_exact [of 1 "- 1"] by (simp add: is_double_def power_int_minus)

lemma backoff_half:
  "backoff_delay 0 (1 / 2) = Num 1500"
  "backoff_delay 1 (1 / 2) = Num 2500"
  "backoff_delay (Suc 0) (1 / 2) = Num 2500"
  "backoff_delay 2 (1 / 2) = Num 4500"
  by (simp_all add: backoff_delay_def fl_one fl_numeral)








section \<open>Properties of the resilient caller\<close>

lemma fetches_append [simp]: "fetches (xs @ ys) = fetches xs @ fetches ys"
  by (induction xs rule: fetches.induct) auto

lemma delays_append [simp]: "delays (xs @ ys) = delays xs @ delays ys"
  by (induction xs rule: delays.induct) auto

lemma parses_append [simp]: "parses (xs @ ys) = parses xs @ parses ys"
  by (induction xs rule: parses.induct) auto

lemma timeline_append [simp]: "timeline (xs @ ys) = timeline xs @ timeline ys"
  by (induction xs rule: timeline.induct) auto

lemma attempt_retryable:
  "retryable r \<Longrightarrow> attempt p (Resolves r) = Inl (status_error (status r))"
  by (simp add: attempt_def)

lemma retryable_truthy: "retryable r \<Longrightarrow> truthy_status (status_error (status r))"
  by (auto simp: retryable_def truthy_status_def status_error_def)


lemma ok_not_retryable: "ok r \<Longrightarrow> \<not> retryable r"
  by (auto simp: ok_def retryable_def)

lemma loop_unfold_retry:
  assumes "int i < retries" and "attempt p (fetch p i url) = Inl e" and "truthy_status e"
    and "int i \<noteq> retries - 1"
  shows "fetchWithRetry_loop p url retries i le =
     (fst (fetchWithRetry_loop p url retries (i + 1) (Some e)),
      [NetFetch url, ConsoleLog (retry_log p i e (backoff_delay i (Math_random p i))),
       SetTimeout (backoff_delay i (Math_random p i))]
        @ snd (fetchWithRetry_loop p url retries (i + 1) (Some e)))"
  using assms
  by (subst fetchWithRetry_loop.simps) (simp add: Let_def split: prod.splits)

lemma loop_unfold_last:
  assumes "int i < retries" and "attempt p (fetch p i url) = Inl e" and "truthy_status e"
    and "int i = retries - 1"
  shows "fetchWithRetry_loop p url retries i le = (Inl (after_loop (Some e)), [NetFetch url])"
  using assms
  by (subst fetchWithRetry_loop.simps) simp

lemma loop_unfold_throw:
  assumes "int i < retries" and "attempt p (fetch p i url) = Inl e" and "\<not> truthy_status e"
  shows "fetchWithRetry_loop p url retries i le = (Inl e, [NetFetch url])"
  using assms
  by (subst fetchWithRetry_loop.simps) simp

lemma loop_unfold_success:
  assumes "int i < retries" and "attempt p (fetch p i url) = Inr r"
  shows "fetchWithRetry_loop p url retries i le = (Inr r, [NetFetch url])"
  using assms
  by (subst fetchWithRetry_loop.simps) simp

lemma loop_unfold_exit:
  assumes "\<not> int i < retries"
  shows "fetchWithRetry_loop p url retries i le = (Inl (after_loop le), [])"
  using assms
  by (subst fetchWithRetry_loop.simps) simp

lemma loop_lastError_irrelevant:
  assumes "int i < retries"
  shows "fetchWithRetry_loop p url retries i le = fetchWithRetry_loop p url retries i le'"
  using assms
  by (subst (1 2) fetchWithRetry_loop.simps) simp

text \<open>
  A run of transient responses from attempt \<open>i\<close> up to, and not including, attempt \<open>k\<close>
  costs one fetch and one backoff wait each, and leaves the outcome to attempt \<open>k\<close>.
\<close>

lemma loop_skip_transient:
  assumes "\<forall>j. i \<le> j \<and> j < k \<longrightarrow> fetch p j url = Resolves (rs j) \<and> retryable (rs j)"
    and "i \<le> k" and "int k < retries"
  shows "fst (fetchWithRetry_loop p url retries i le) = fst (fetchWithRetry_loop p url retries k le)
       \<and> fetches (snd (fetchWithRetry_loop p url retries i le))
           = replicate (k - i) url @ fetches (snd (fetchWithRetry_loop p url retries k le))
       \<and> delays (snd (fetchWithRetry_loop p url retries i le))
           = map (\<lambda>j. backoff_delay j (Math_random p j)) [i..<k]
               @ delays (snd (fetchWithRetry_loop p url retries k le))
       \<and> timeline (snd (fetchWithRetry_loop p url retries i le))
           = concat (map (\<lambda>j. [NetFetch url, SetTimeout (backoff_delay j (Math_random p j))])
                       [i..<k])
               @ timeline (snd (fetchWithRetry_loop p url retries k le))"
  using assms(1,2)
proof (induction "k - i" arbitrary: i le)
  case 0
  then show ?case by simp
next
  case (Suc n)
  then have lt: "i < k" and n: "n = k - (i + 1)" and le1: "i + 1 \<le> k" by linarith+
  have bound: "int i < retries" and notlast: "int i \<noteq> retries - 1"
    using lt assms(3) by linarith+
  have r: "retryable (rs i)" and f: "fetch p i url = Resolves (rs i)"
    using Suc.prems(1) lt by auto
  let ?e = "status_error (status (rs i))"
  have a: "attempt p (fetch p i url) = Inl ?e"
    using f attempt_retryable [OF r] by simp
  have step: "fetchWithRetry_loop p url retries i le =
     (fst (fetchWithRetry_loop p url retries (i + 1) (Some ?e)),
      [NetFetch url, ConsoleLog (retry_log p i ?e (backoff_delay i (Math_random p i))),
       SetTimeout (backoff_delay i (Math_random p i))]
        @ snd (fetchWithRetry_loop p url retries (i + 1) (Some ?e)))"
    by (rule loop_unfold_retry [OF bound a retryable_truthy [OF r] notlast])
  have ih: "fst (fetchWithRetry_loop p url retries (i + 1) (Some ?e))
              = fst (fetchWithRetry_loop p url retries k (Some ?e))
       \<and> fetches (snd (fetchWithRetry_loop p url retries (i + 1) (Some ?e)))
           = replicate (k - (i + 1)) url
               @ fetches (snd (fetchWithRetry_loop p url retries k (Some ?e)))
       \<and> delays (snd (fetchWithRetry_loop p url retries (i + 1) (Some ?e)))
           = map (\<lambda>j. backoff_delay j (Math_random p j)) [i + 1..<k]
               @ delays (snd (fetchWithRetry_loop p url retries k (Some ?e)))
       \<and> timeline (snd (fetchWithRetry_loop p url retries (i + 1) (Some ?e)))
           = concat (map (\<lambda>j. [NetFetch url, SetTimeout (backoff_delay j (Math_random p j))])
                       [i + 1..<k])
               @ timeline (snd (fetchWithRetry_loop p url retries k (Some ?e)))"
    using Suc.hyps(1) [OF n _ le1] Suc.prems(1) by simp
  have same: "fetchWithRetry_loop p url retries k (Some ?e) = fetchWithRetry_loop p url retries k le"
    by (rule loop_lastError_irrelevant [OF assms(3)])
  have r1: "k - i = Suc (k - Suc i)" using lt by linarith
  have r2: "[i..<k] = i # [Suc i..<k]" using lt by (simp add: upt_conv_Cons)
  show ?case
    using ih by (simp add: step same r1 r2)
qed

lemma attempt_ok: "ok r \<Longrightarrow> attempt p (Resolves r) = Inr r"
  by (simp add: attempt_def ok_not_retryable)




lemma replicate_3: "replicate 3 x = [x, x, x]"
  by (simp add: eval_nat_numeral)


lemma upt_0_3': "[0..<3] = [0, Suc 0, 2]"
  by (simp add: upt_conv_Cons)

lemma always_503_simps:
  "fetch always_503 k u = Resolves \<lparr>status = 503, body = Inl ''Unexpected token''\<rparr>"
  "Math_random always_503 k = 1 / 2"
  by (simp_all add: always_503_def demo_platform_def)


lemma flaky_then_ok_simps:
  "fetch flaky_then_ok k u =
     (if k < 3 then Resolves \<lparr>status = 503, body = Inl ''Unexpected token''\<rparr>
      else Resolves \<lparr>status = 200, body = Inr (JObj [])\<rparr>)"
  "Math_random flaky_then_ok k = 1 / 2"
  by (simp_all add: flaky_then_ok_def demo_platform_def)

subsection \<open>The status can be read back from its decimal digits\<close>

lemma digit_value_char: "d < 10 \<Longrightarrow> digit_value (digit_char d) = d"
proof -
  assume "d < 10"
  then have "d = 0 \<or> d = 1 \<or> d = 2 \<or> d = 3 \<or> d = 4 \<or> d = 5 \<or> d = 6 \<or> d = 7 \<or> d = 8 \<or> d = 9"
    by arith
  then show ?thesis by (elim disjE) (simp_all add: digit_value_def digit_char_def)
qed

lemma nat_of_string_snoc: "nat_of_string (xs @ [c]) = 10 * nat_of_string xs + digit_value c"
  by (simp add: nat_of_string_def)

lemma string_of_nat_small: "n < 10 \<Longrightarrow> string_of_nat n = [digit_char n]"
  by (subst string_of_nat.simps) simp

lemma string_of_nat_large:
  "\<not> n < 10 \<Longrightarrow> string_of_nat n = string_of_nat (n div 10) @ [digit_char (n mod 10)]"
  by (subst string_of_nat.simps) simp

lemma nat_of_string_of_nat: "nat_of_string (string_of_nat n) = n"
proof (induction n rule: string_of_nat.induct)
  case (1 n)
  show ?case
  proof (cases "n < 10")
    case True
    then show ?thesis
      by (simp only: string_of_nat_small) (simp add: nat_of_string_def digit_value_char)
  next
    case False
    have ih: "nat_of_string (string_of_nat (n div 10)) = n div 10"
      using "1.IH" [OF False] .
    have "nat_of_string (string_of_nat n)
            = 10 * nat_of_string (string_of_nat (n div 10)) + digit_value (digit_char (n mod 10))"
      by (simp only: string_of_nat_large [OF False] nat_of_string_snoc)
    also have "\<dots> = 10 * (n div 10) + n mod 10"
      by (simp only: ih) (simp add: digit_value_char)
    finally show ?thesis by simp
  qed
qed

lemma string_of_nat_inj: "string_of_nat m = string_of_nat n \<Longrightarrow> m = n"
proof -
  assume "string_of_nat m = string_of_nat n"
  then have "nat_of_string (string_of_nat m) = nat_of_string (string_of_nat n)" by (rule arg_cong)
  then show ?thesis by (simp only: nat_of_string_of_nat)
qed

lemma unavailable_inj: "unavailable s = unavailable s' \<Longrightarrow> s = s'"
proof -
  assume "unavailable s = unavailable s'"
  then have "string_of_nat s = string_of_nat s'" by (simp add: unavailable_def Error_def)
  then show ?thesis by (rule string_of_nat_inj)
qed

subsection \<open>A run in which every attempt is answered with a retryable status\<close>


section \<open>Claims about fetchWithRetry\<close>




text \<open>
  Claim C7. With a budget of 4, when the first three fetches are answered with 503 and the
  fourth with a 2xx response, \<^verbatim>\<open>fetchWithRetry\<close> returns that fourth response, makes
  exactly four network calls, and hands \<^verbatim>\<open>setTimeout\<close> three backoff delays that are at
  least \<open>1000\<close>, \<open>2000\<close> and \<open>4000\<close> ms: at least \<open>1000 + 2000 + 4000\<close> ms in all, the
  jitter \<^verbatim>\<open>Math.random() * 1000\<close> being non-negative. All three are finite when the
  random numbers are binary64 numbers below 1.
\<close>

theorem C7_three_503_then_success:
  assumes "\<forall>k<3. fetch p k url = Resolves (rs k) \<and> status (rs k) = 503"
    and "fetch p 3 url = Resolves r" and "ok r"
    and "\<forall>k. 0 \<le> Math_random p k"
  shows "fst (fetchWithRetry p url 4) = Inr r
       \<and> fetches (snd (fetchWithRetry p url 4)) = [url, url, url, url]
       \<and> delays (snd (fetchWithRetry p url 4))
           = [backoff_delay 0 (Math_random p 0), backoff_delay 1 (Math_random p 1),
              backoff_delay 2 (Math_random p 2)]
       \<and> at_least 1000 (backoff_delay 0 (Math_random p 0))
       \<and> at_least 2000 (backoff_delay 1 (Math_random p 1))
       \<and> at_least 4000 (backoff_delay 2 (Math_random p 2))
       \<and> (\<forall>d0 d1 d2. delays (snd (fetchWithRetry p url 4)) = [Num d0, Num d1, Num d2]
             \<longrightarrow> 1000 + 2000 + 4000 \<le> d0 + d1 + d2)
       \<and> ((\<forall>k<3. is_double (Math_random p k) \<and> Math_random p k < 1)
             \<longrightarrow> (\<exists>d0 d1 d2. delays (snd (fetchWithRetry p url 4)) = [Num d0, Num d1, Num d2]))"
proof -
  have tr: "\<forall>j. 0 \<le> j \<and> j < 3 \<longrightarrow> fetch p j url = Resolves (rs j) \<and> retryable (rs j)"
    using assms(1) by (simp add: retryable_def)
  have at3: "fetchWithRetry_loop p url 4 3 None = (Inr r, [NetFetch url])"
    using loop_unfold_success [of 3 4 p url r None] attempt_ok [OF assms(3)] assms(2) by simp
  note skip = loop_skip_transient [OF tr, of 4 None]
  have r: "fst (fetchWithRetry p url 4) = Inr r"
    using skip by (simp add: fetchWithRetry_def at3)
  have f: "fetches (snd (fetchWithRetry p url 4)) = [url, url, url, url]"
    using skip by (simp add: fetchWithRetry_def at3 replicate_3)
  have d: "delays (snd (fetchWithRetry p url 4))
           = [backoff_delay 0 (Math_random p 0), backoff_delay 1 (Math_random p 1),
              backoff_delay 2 (Math_random p 2)]"
    using skip by (simp add: fetchWithRetry_def at3 upt_0_3')
  have a0: "at_least 1000 (backoff_delay 0 (Math_random p 0))"
    using backoff_at_least [of 0 "Math_random p 0"] assms(4) by simp
  have a1: "at_least 2000 (backoff_delay 1 (Math_random p 1))"
    using backoff_at_least [of 1 "Math_random p 1"] assms(4) by simp
  have a2: "at_least 4000 (backoff_delay 2 (Math_random p 2))"
    using backoff_at_least [of 2 "Math_random p 2"] assms(4) by simp
  have s: "\<forall>d0 d1 d2. delays (snd (fetchWithRetry p url 4)) = [Num d0, Num d1, Num d2]
             \<longrightarrow> 1000 + 2000 + 4000 \<le> d0 + d1 + d2"
    using a0 a1 a2 by (auto simp: d)
  have fin: "(\<forall>k<3. is_double (Math_random p k) \<and> Math_random p k < 1)
             \<longrightarrow> (\<exists>d0 d1 d2. delays (snd (fetchWithRetry p url 4)) = [Num d0, Num d1, Num d2])"
  proof
    assume h: "\<forall>k<3. is_double (Math_random p k) \<and> Math_random p k < 1"
    have "\<exists>d. backoff_delay 0 (Math_random p 0) = Num d"
      using backoff_bound [of 0 "Math_random p 0"] h assms(4) by auto
    moreover have "\<exists>d. backoff_delay 1 (Math_random p 1) = Num d"
      using backoff_bound [of 1 "Math_random p 1"] h assms(4) by auto
    moreover have "\<exists>d. backoff_delay 2 (Math_random p 2) = Num d"
      using backoff_bound [of 2 "Math_random p 2"] h assms(4) by auto
    ultimately show "\<exists>d0 d1 d2. delays (snd (fetchWithRetry p url 4)) = [Num d0, Num d1, Num d2]"
      by (auto simp: d)
  qed
  show ?thesis using r f d a0 a1 a2 s fin by blast
qed

theorem C7_witness:
  "fst (fetchWithRetry flaky_then_ok ''u'' 4) = Inr \<lparr>status = 200, body = Inr (JObj [])\<rparr>
   \<and> fetches (snd (fetchWithRetry flaky_then_ok ''u'' 4)) = [''u'', ''u'', ''u'', ''u'']
   \<and> delays (snd (fetchWithRetry flaky_then_ok ''u'' 4)) = [Num 1500, Num 2500, Num 4500]
   \<and> 1000 + 2000 + 4000 \<le> (1500 + 2500 + 4500 :: real)"
  using C7_three_503_then_success
          [of flaky_then_ok "''u''" "\<lambda>k. \<lparr>status = 503, body = Inl ''Unexpected token''\<rparr>"
              "\<lparr>status = 200, body = Inr (JObj [])\<rparr>"]
  by (simp add: flaky_then_ok_simps ok_def backoff_half is_double_half)

text \<open>
  Claim C5. When a \<^verbatim>\<open>fetch\<close> within the budget rejects with an exception that has no
  \<^verbatim>\<open>status\<close> (a network failure), \<^verbatim>\<open>fetchWithRetry\<close> rethrows that very exception at
  once: the failed fetch is the last network call and no backoff wait follows it. The
  theorem allows \<open>k\<close> retried responses before the failure; with \<open>k = 0\<close> the failure is
  on the first attempt and the run is one fetch and no wait. Only the attempts answered
  with a status were followed by a wait and another fetch.
\<close>

theorem C5_network_failure_not_retried:
  assumes "int k < retries"
    and "\<forall>j<k. fetch p j url = Resolves (rs j) \<and> (500 \<le> status (rs j) \<or> status (rs j) = 429)"
    and "fetch p k url = Rejects e" and "err_status e = None"
  shows "fst (fetchWithRetry p url retries) = Inl e
       \<and> fetches (snd (fetchWithRetry p url retries)) = replicate (Suc k) url
       \<and> delays (snd (fetchWithRetry p url retries))
           = map (\<lambda>j. backoff_delay j (Math_random p j)) [0..<k]"
proof -
  have tr: "\<forall>j. 0 \<le> j \<and> j < k \<longrightarrow> fetch p j url = Resolves (rs j) \<and> retryable (rs j)"
    using assms(2) by (simp add: retryable_def)
  have a: "attempt p (fetch p k url) = Inl e"
    using assms(3) by (simp add: attempt_def)
  have nt: "\<not> truthy_status e"
    using assms(4) by (simp add: truthy_status_def)
  have at_k: "fetchWithRetry_loop p url retries k None = (Inl e, [NetFetch url])"
    by (rule loop_unfold_throw [OF assms(1) a nt])
  note skip = loop_skip_transient [OF tr _ assms(1), of None]
  show ?thesis
    using skip by (simp add: fetchWithRetry_def at_k replicate_append_same)
qed

theorem C5_witness:
  "fst (fetchWithRetry offline ''u'' 4) = Inl network_error
   \<and> fetches (snd (fetchWithRetry offline ''u'' 4)) = [''u'']
   \<and> delays (snd (fetchWithRetry offline ''u'' 4)) = []"
  using C5_network_failure_not_retried
          [of 0 4 offline "''u''" "\<lambda>j. \<lparr>status = 503, body = Inl []\<rparr>" network_error]
  by (simp add: offline_def demo_platform_def network_error_def)

text \<open>
  A response that is neither retryable nor ok ends the call on the first attempt: one
  fetch, no wait, and an error without a status.
\<close>

lemma api_error_no_status: "err_status (api_error p pre errorData) = None"
  by (cases errorData)
     (simp_all add: api_error_def TypeError_read_def Error_def Let_def)

lemma attempt_permanent:
  assumes "\<not> retryable r" and "\<not> ok r"
  shows "\<exists>e. attempt p (Resolves r) = Inl e \<and> err_status e = None"
  using assms
  by (cases "body r") (simp_all add: attempt_def SyntaxError_def api_error_no_status)

lemma permanent_fails_at_once:
  assumes "0 < retries" and "fetch p 0 url = Resolves r"
    and "\<not> retryable r" and "\<not> ok r"
  shows "\<exists>e. fetchWithRetry p url retries = (Inl e, [NetFetch url]) \<and> err_status e = None"
proof -
  obtain e where a: "attempt p (Resolves r) = Inl e" and n: "err_status e = None"
    using attempt_permanent [OF assms(3,4)] by blast
  have "fetchWithRetry_loop p url retries 0 None = (Inl e, [NetFetch url])"
    using loop_unfold_throw [of 0 retries p url e None] assms(1,2) a n
    by (simp add: truthy_status_def)
  then show ?thesis using n by (simp add: fetchWithRetry_def)
qed

text \<open>
  When the body of such a response is JSON other than \<^verbatim>\<open>null\<close>, the error message is
  the server's \<^verbatim>\<open>error.message\<close> if that is truthy, and "Unknown error" otherwise.
\<close>

lemma permanent_message:
  assumes "0 < retries" and "fetch p 0 url = Resolves r"
    and "\<not> retryable r" and "\<not> ok r"
    and "body r = Inr errorData" and "errorData \<noteq> JNull"
  shows "fst (fetchWithRetry p url retries) =
           Inl (Error (''API error: '' @
                  (let m = opt_member (own_prop errorData ''error'') ''message''
                   in if truthy m then value_to_string (Number_toString p) m
                      else ''Unknown error'')))"
proof -
  have m: "get_member (Some errorData) ''error'' = Inr (own_prop errorData ''error'')"
    using assms(6) by (cases errorData) simp_all
  have a: "attempt p (Resolves r) = Inl (api_error p ''API error: '' errorData)"
    using assms(3,4,5) by (simp add: attempt_def)
  have "fetchWithRetry_loop p url retries 0 None
          = (Inl (api_error p ''API error: '' errorData), [NetFetch url])"
    using loop_unfold_throw [of 0 retries p url _ None] assms(1,2) a
    by (simp add: truthy_status_def api_error_no_status)
  then show ?thesis
    by (simp add: fetchWithRetry_def api_error_def m Let_def del: get_member.simps)
qed

text \<open>
  Claim C4. A response with a status below 500, other than 429 and outside 200..299, is to
  fail at once with the server's message or else "Unknown error". The lemmas above show
  that the call does fail at once, and that the message is as claimed when the body is
  JSON. The fallback does not cover a body that is not JSON: \<^verbatim>\<open>response.json()\<close> is
  awaited outside any guard, its SyntaxError has no \<^verbatim>\<open>status\<close>, and the \<^verbatim>\<open>catch\<close>
  block rethrows it as it is. Here a 413 with an HTML body: the caller gets the parser's
  message.
\<close>

theorem C4_non_json_error_body:
  "fetch html_413 0 ''u'' =
      Resolves \<lparr>status = 413, body = Inl ''Unexpected token < in JSON at position 0''\<rparr>
   \<and> fetchWithRetry html_413 ''u'' 4 =
        (Inl (SyntaxError ''Unexpected token < in JSON at position 0''), [NetFetch ''u''])
   \<and> message (SyntaxError ''Unexpected token < in JSON at position 0'')
        \<noteq> ''API error: Unknown error''"
proof -
  have f: "fetch html_413 0 ''u'' =
      Resolves \<lparr>status = 413, body = Inl ''Unexpected token < in JSON at position 0''\<rparr>"
    by (simp add: html_413_def demo_platform_def)
  have a: "attempt html_413 (fetch html_413 0 ''u'')
             = Inl (SyntaxError ''Unexpected token < in JSON at position 0'')"
    by (simp add: f attempt_def retryable_def ok_def)
  have "fetchWithRetry_loop html_413 ''u'' 4 0 None =
        (Inl (SyntaxError ''Unexpected token < in JSON at position 0''), [NetFetch ''u''])"
    using loop_unfold_throw [OF _ a, of 4 None]
    by (simp add: truthy_status_def SyntaxError_def)
  then show ?thesis
    using f by (simp add: fetchWithRetry_def SyntaxError_def)
qed

section \<open>Claims about the extraction\<close>

lemma response_text_envelope: "response_text (envelope t) = Inr (Some t)"
  by (cases t) (simp_all add: response_text_def envelope_def)

lemma response_text_null: "response_text JNull = Inl (TypeError_read ''null'' ''candidates'')"
  by (simp add: response_text_def)

lemma response_text_not_null:
  "data \<noteq> JNull \<Longrightarrow> \<exists>v. response_text data = Inr v"
  by (cases data) (simp_all add: response_text_def)

lemma loop_no_parse: "parses (snd (fetchWithRetry_loop p url retries i le)) = []"
proof (induction "nat (retries - int i)" arbitrary: i le)
  case 0
  then have "\<not> int i < retries" by simp
  then show ?case by (simp add: loop_unfold_exit)
next
  case (Suc n)
  then have bound: "int i < retries" and n: "n = nat (retries - int (i + 1))" by linarith+
  show ?case
  proof (cases "attempt p (fetch p i url)")
    case (Inr r)
    then show ?thesis by (simp add: loop_unfold_success [OF bound])
  next
    case (Inl e)
    show ?thesis
    proof (cases "truthy_status e")
      case False
      then show ?thesis by (simp add: loop_unfold_throw [OF bound Inl])
    next
      case True
      show ?thesis
      proof (cases "int i = retries - 1")
        case last: True
        show ?thesis by (simp add: loop_unfold_last [OF bound Inl True last])
      next
        case notlast: False
        show ?thesis
          using Suc.hyps(1) [OF n, of "Some e"]
          by (simp add: loop_unfold_retry [OF bound Inl True notlast])
      qed
    qed
  qed
qed

lemma fetchWithRetry_no_parse:
  "fetchWithRetry p url retries = (res, tr) \<Longrightarrow> parses tr = []"
  using loop_no_parse [of p url retries 0 None] by (simp add: fetchWithRetry_def)

lemma extract_after_fetch:
  assumes "fetchWithRetry p (gemini_pro_url key) 4 = (Inr r, tr)"
    and "body r = Inr data" and "response_text data = Inr v"
  shows "extractMedicalDataWithGemini p key img mime =
           (if \<not> truthy v then (Inl invalid_structure, tr)
            else (fst (parse_extraction p v), tr @ snd (parse_extraction p v)))"
  using assms by (simp add: extractMedicalDataWithGemini_def split: prod.splits)

lemma parse_extraction_rejected:
  assumes "JSON_parse p (value_to_string (Number_toString p) v) = Inl msg"
  shows "parse_extraction p v =
           (Inl invalid_json,
            [JsonParse (value_to_string (Number_toString p) v),
             ConsoleErrorValue parse_failed_label v])"
  using assms by (simp add: parse_extraction_def)

lemma parse_extraction_null:
  assumes "JSON_parse p (value_to_string (Number_toString p) v) = Inr JNull"
  shows "parse_extraction p v =
           (Inl invalid_json,
            [JsonParse (value_to_string (Number_toString p) v),
             ConsoleErrorValue parse_failed_label v])"
  using assms by (simp add: parse_extraction_def)

lemma parse_extraction_value:
  assumes "JSON_parse p (value_to_string (Number_toString p) v) = Inr parsedJson"
    and "parsedJson \<noteq> JNull"
  shows "parse_extraction p v =
           (Inr \<lparr>extractedText = own_prop parsedJson ''transcribedText'',
                 extractedData = own_prop parsedJson ''structuredData''\<rparr>,
            [JsonParse (value_to_string (Number_toString p) v)])"
  using assms by (cases parsedJson) (simp_all add: parse_extraction_def)

lemma twostage_after_fetch:
  assumes "fetch p 1 (gemini_flash_url key) = Resolves r" and "ok r"
    and "body r = Inr data" and "response_text data = Inr v"
  shows "extractMedicalDataWithGemini_twostage p key t =
           (if \<not> truthy v then (Inl invalid_structure, [NetFetch (gemini_flash_url key)])
            else (fst (parse_structured p v),
                  NetFetch (gemini_flash_url key) # snd (parse_structured p v)))"
  using assms by (simp add: extractMedicalDataWithGemini_twostage_def split: prod.splits)

lemma replies_200_simps:
  "fetch (replies_200 data parsed) k u = Resolves \<lparr>status = 200, body = Inr data\<rparr>"
  "JSON_parse (replies_200 data parsed) s =
     (case map_of parsed s of None \<Rightarrow> Inl ''Unexpected token'' | Some v \<Rightarrow> Inr v)"
  by (simp_all add: replies_200_def demo_platform_def)

lemma fetchWithRetry_first_ok:
  assumes "fetch p 0 url = Resolves r" and "ok r" and "0 < retries"
  shows "fetchWithRetry p url retries = (Inr r, [NetFetch url])"
  using loop_unfold_success [of 0 retries p url r None] assms attempt_ok [OF assms(2), of p]
  by (simp add: fetchWithRetry_def)

lemma fetchWithRetry_replies_200:
  "fetchWithRetry (replies_200 data parsed) url 4
     = (Inr \<lparr>status = 200, body = Inr data\<rparr>, [NetFetch url])"
  by (rule fetchWithRetry_first_ok) (simp_all add: replies_200_simps ok_def)

text \<open>
  When the nested text of a 2xx response is missing, that is, when
  \<^verbatim>\<open>data.candidates?.[0]?.content?.parts?.[0]?.text\<close> evaluates to \<^verbatim>\<open>undefined\<close> or to
  another falsy value, the extraction fails with the error "Invalid response structure
  from Gemini API." and \<^verbatim>\<open>JSON.parse\<close> has not been called, in both variants. The chain
  evaluates for every JSON body except \<^verbatim>\<open>null\<close> (\<open>response_text_not_null\<close>).
\<close>

lemma missing_text_invalid_structure:
  assumes "body r = Inr data" and "response_text data = Inr v" and "\<not> truthy v"
  shows "(fetchWithRetry p (gemini_pro_url key) 4 = (Inr r, tr) \<longrightarrow>
            extractMedicalDataWithGemini p key img mime = (Inl invalid_structure, tr)
            \<and> parses tr = [])
       \<and> (fetch p 1 (gemini_flash_url key) = Resolves r \<and> ok r \<longrightarrow>
            extractMedicalDataWithGemini_twostage p key t
              = (Inl invalid_structure, [NetFetch (gemini_flash_url key)]))
       \<and> message invalid_structure = ''Invalid response structure from Gemini API.''"
  using assms extract_after_fetch [OF _ assms(1,2)] twostage_after_fetch [OF _ _ assms(1,2)]
    fetchWithRetry_no_parse
  by (auto simp: invalid_structure_def Error_def)

lemma blocked_200_invalid_structure:
  "extractMedicalDataWithGemini blocked_200 ''k'' None ''image/png''
     = (Inl invalid_structure, [NetFetch (gemini_pro_url ''k'')])
   \<and> extractMedicalDataWithGemini_twostage blocked_200 ''k'' None
     = (Inl invalid_structure, [NetFetch (gemini_flash_url ''k'')])"
  using missing_text_invalid_structure
          [of "\<lparr>status = 200, body = Inr (JObj [(''promptFeedback'', JObj [(''blockReason'', JStr ''SAFETY'')])])\<rparr>"
              "JObj [(''promptFeedback'', JObj [(''blockReason'', JStr ''SAFETY'')])]"
              None blocked_200 "''k''" "[NetFetch (gemini_pro_url ''k'')]" None "''image/png''" None]
        fetchWithRetry_replies_200
          [of "JObj [(''promptFeedback'', JObj [(''blockReason'', JStr ''SAFETY'')])]" "[]"
              "gemini_pro_url ''k''"]
  by (simp add: blocked_200_def replies_200_simps response_text_def ok_def)

text \<open>
  Claim C6. A 2xx response whose envelope lacks the nested text is to fail with "Invalid
  response structure". The lemma above shows that it does for every JSON body but one.
  Every step of the chain is guarded by \<^verbatim>\<open>?.\<close> except the first: \<^verbatim>\<open>data.candidates\<close> is
  read from the body as it is. For the body \<^verbatim>\<open>null\<close>, which has no nested text either,
  that read throws a TypeError, and the caller receives it in place of the error claimed.
  So it is in both variants.
\<close>

theorem C6_null_body_type_error:
  "fetch null_body_200 0 (gemini_pro_url ''k'') = Resolves \<lparr>status = 200, body = Inr JNull\<rparr>
   \<and> fetch null_body_200 1 (gemini_flash_url ''k'') = Resolves \<lparr>status = 200, body = Inr JNull\<rparr>
   \<and> extractMedicalDataWithGemini null_body_200 ''k'' None ''image/png''
       = (Inl (TypeError_read ''null'' ''candidates''), [NetFetch (gemini_pro_url ''k'')])
   \<and> extractMedicalDataWithGemini_twostage null_body_200 ''k'' None
       = (Inl (TypeError_read ''null'' ''candidates''), [NetFetch (gemini_flash_url ''k'')])
   \<and> err_name (TypeError_read ''null'' ''candidates'') = ''TypeError''
   \<and> message (TypeError_read ''null'' ''candidates'') \<noteq> message invalid_structure"
proof -
  have f: "\<And>k u. fetch null_body_200 k u = Resolves \<lparr>status = 200, body = Inr JNull\<rparr>"
    by (simp add: null_body_200_def replies_200_simps)
  have w: "fetchWithRetry null_body_200 (gemini_pro_url ''k'') 4
             = (Inr \<lparr>status = 200, body = Inr JNull\<rparr>, [NetFetch (gemini_pro_url ''k'')])"
    unfolding null_body_200_def by (rule fetchWithRetry_replies_200)
  have m: "extractMedicalDataWithGemini null_body_200 ''k'' None ''image/png''
       = (Inl (TypeError_read ''null'' ''candidates''), [NetFetch (gemini_pro_url ''k'')])"
    by (simp add: extractMedicalDataWithGemini_def w response_text_null)
  have t: "extractMedicalDataWithGemini_twostage null_body_200 ''k'' None
       = (Inl (TypeError_read ''null'' ''candidates''), [NetFetch (gemini_flash_url ''k'')])"
    by (simp add: extractMedicalDataWithGemini_twostage_def f ok_def response_text_null)
  have d: "message (TypeError_read ''null'' ''candidates'') \<noteq> message invalid_structure"
    by (simp add: TypeError_read_def invalid_structure_def Error_def)
  show ?thesis using f m t d by (simp add: TypeError_read_def)
qed

text \<open>
  Claim C2, as amended. When the text of a 2xx response is truthy and \<^verbatim>\<open>JSON.parse\<close>
  rejects it, the extraction fails with one fixed error, whose message is "Gemini API did
  not return valid JSON. See raw text for details." and which has no other payload; the
  raw text is handed to \<^verbatim>\<open>console.error\<close> as it is, and is not in what the caller
  receives. This holds in both variants.
\<close>

theorem C2_invalid_json_error_is_fixed:
  assumes "body r = Inr data" and "response_text data = Inr v" and "truthy v"
    and "JSON_parse p (value_to_string (Number_toString p) v) = Inl msg"
  shows "(fetchWithRetry p (gemini_pro_url key) 4 = (Inr r, tr) \<longrightarrow>
            extractMedicalDataWithGemini p key img mime
              = (Inl invalid_json,
                 tr @ [JsonParse (value_to_string (Number_toString p) v),
                       ConsoleErrorValue parse_failed_label v]))
       \<and> (fetch p 1 (gemini_flash_url key) = Resolves r \<and> ok r \<longrightarrow>
            extractMedicalDataWithGemini_twostage p key t
              = (Inl invalid_json,
                 [NetFetch (gemini_flash_url key),
                  JsonParse (value_to_string (Number_toString p) v),
                  ConsoleErrorValue parse_failed_label v]))
       \<and> invalid_json
           = \<lparr>err_name = ''Error'',
              message = ''Gemini API did not return valid JSON. See raw text for details.'',
              err_status = None\<rparr>"
  using assms extract_after_fetch [OF _ assms(1,2)] twostage_after_fetch [OF _ _ assms(1,2)]
    parse_extraction_rejected [OF assms(4)]
  by (auto simp: invalid_json_def Error_def parse_structured_def)

theorem C2_witness:
  "extractMedicalDataWithGemini garbage_200 ''k'' None ''image/png''
     = (Inl invalid_json,
        [NetFetch (gemini_pro_url ''k''), JsonParse ''<html>oops'',
         ConsoleErrorValue parse_failed_label (Some (JStr ''<html>oops''))])
   \<and> extractMedicalDataWithGemini_twostage garbage_200 ''k'' None
     = (Inl invalid_json,
        [NetFetch (gemini_flash_url ''k''), JsonParse ''<html>oops'',
         ConsoleErrorValue parse_failed_label (Some (JStr ''<html>oops''))])"
  using C2_invalid_json_error_is_fixed
          [of "\<lparr>status = 200, body = Inr (envelope (JStr ''<html>oops''))\<rparr>"
              "envelope (JStr ''<html>oops'')" "Some (JStr ''<html>oops'')" garbage_200
              "''Unexpected token''" "''k''" "[NetFetch (gemini_pro_url ''k'')]"
              None "''image/png''" None]
        fetchWithRetry_replies_200 [of "envelope (JStr ''<html>oops'')" "[]" "gemini_pro_url ''k''"]
  by (simp add: garbage_200_def replies_200_simps response_text_envelope ok_def)

text \<open>
  The claim as the specification has it, that the raw text reappears in the error, fails:
  for the text \<^verbatim>\<open><html>oops\<close> the error is the fixed one, and the text is no part of
  its message.
\<close>

theorem C2_counterexample:
  "extractMedicalDataWithGemini garbage_200 ''k'' None ''image/png''
     = (Inl \<lparr>err_name = ''Error'',
             message = ''Gemini API did not return valid JSON. See raw text for details.'',
             err_status = None\<rparr>,
        [NetFetch (gemini_pro_url ''k''), JsonParse ''<html>oops'',
         ConsoleErrorValue parse_failed_label (Some (JStr ''<html>oops''))])
   \<and> \<not> sublist ''<html>oops''
         ''Gemini API did not return valid JSON. See raw text for details.''"
proof -
  have "parse_extraction garbage_200 (Some (JStr ''<html>oops''))
          = (Inl invalid_json, [JsonParse ''<html>oops'',
               ConsoleErrorValue parse_failed_label (Some (JStr ''<html>oops''))])"
    using parse_extraction_rejected [of garbage_200 "Some (JStr ''<html>oops'')" "''Unexpected token''"]
    by (simp add: garbage_200_def replies_200_simps)
  then have "extractMedicalDataWithGemini garbage_200 ''k'' None ''image/png''
     = (Inl invalid_json,
        [NetFetch (gemini_pro_url ''k''), JsonParse ''<html>oops'',
         ConsoleErrorValue parse_failed_label (Some (JStr ''<html>oops''))])"
    using extract_after_fetch [OF fetchWithRetry_replies_200, of "envelope (JStr ''<html>oops'')"
            "envelope (JStr ''<html>oops'')" "Some (JStr ''<html>oops'')" "[]" "''k''" None "''image/png''"]
    by (simp add: garbage_200_def response_text_envelope)
  moreover have "\<not> sublist ''<html>oops''
         ''Gemini API did not return valid JSON. See raw text for details.''"
  proof
    assume "sublist ''<html>oops''
         ''Gemini API did not return valid JSON. See raw text for details.''"
    then have "set ''<html>oops''
         \<subseteq> set ''Gemini API did not return valid JSON. See raw text for details.''"
      by (rule set_mono_sublist)
    then show False by simp
  qed
  ultimately show ?thesis by (simp add: invalid_json_def Error_def)
qed

text \<open>
  Claim C3, as amended. When the text parses to a JSON value other than \<^verbatim>\<open>null\<close>, the
  extraction succeeds and \<^verbatim>\<open>extractedData\<close> is the value's \<^verbatim>\<open>structuredData\<close>
  property as it is, \<^verbatim>\<open>undefined\<close> when there is none. Nothing is added to it: the
  result has every key of the declared schema exactly when the backend's output has.
\<close>

theorem C3_structured_data_passed_through:
  assumes "fetchWithRetry p (gemini_pro_url key) 4 = (Inr r, tr)"
    and "body r = Inr data" and "response_text data = Inr v" and "truthy v"
    and "JSON_parse p (value_to_string (Number_toString p) v) = Inr parsedJson"
    and "parsedJson \<noteq> JNull"
  shows "fst (extractMedicalDataWithGemini p key img mime)
           = Inr \<lparr>extractedText = own_prop parsedJson ''transcribedText'',
                  extractedData = own_prop parsedJson ''structuredData''\<rparr>
       \<and> (\<forall>res. fst (extractMedicalDataWithGemini p key img mime) = Inr res \<longrightarrow>
             complete_schema (extractedData res)
               = complete_schema (own_prop parsedJson ''structuredData''))"
  using extract_after_fetch [OF assms(1,2,3)] assms(4) parse_extraction_value [OF assms(5,6)]
  by auto

theorem C3_witness:
  "fst (extractMedicalDataWithGemini full_200 ''k'' None ''image/png'')
     = Inr \<lparr>extractedText = Some (JStr ''x''), extractedData = Some full_data\<rparr>
   \<and> complete_schema (Some full_data)"
proof -
  have t: "truthy (Some (JStr full_text))" by (simp add: full_text_def)
  have p: "JSON_parse full_200 (value_to_string (Number_toString full_200) (Some (JStr full_text)))
             = Inr (JObj [(''transcribedText'', JStr ''x''), (''structuredData'', full_data)])"
    by (simp add: full_200_def replies_200_simps)
  have f: "fetchWithRetry full_200 (gemini_pro_url ''k'') 4
             = (Inr \<lparr>status = 200, body = Inr (envelope (JStr full_text))\<rparr>,
                [NetFetch (gemini_pro_url ''k'')])"
    unfolding full_200_def by (rule fetchWithRetry_replies_200)
  have c: "complete_schema (Some full_data)"
    by (simp add: complete_schema_def has_key_def full_data_def)
  show ?thesis
    using C3_structured_data_passed_through
            [OF f _ response_text_envelope t p, of None "''image/png''"] c
    by simp
qed

lemma sparse_200_extract:
  "extractMedicalDataWithGemini sparse_200 ''k'' img mime
     = (Inr \<lparr>extractedText = Some (JStr ''x''), extractedData = Some (JObj [])\<rparr>,
        [NetFetch (gemini_pro_url ''k''), JsonParse sparse_text])"
proof -
  have "parse_extraction sparse_200 (Some (JStr sparse_text))
          = (Inr \<lparr>extractedText = Some (JStr ''x''), extractedData = Some (JObj [])\<rparr>,
             [JsonParse sparse_text])"
    using parse_extraction_value [of sparse_200 "Some (JStr sparse_text)"
            "JObj [(''transcribedText'', JStr ''x''), (''structuredData'', JObj [])]"]
    by (simp add: sparse_200_def replies_200_simps)
  moreover have "truthy (Some (JStr sparse_text))"
    by (simp add: sparse_text_def)
  ultimately show ?thesis
    using extract_after_fetch [OF fetchWithRetry_replies_200, of "envelope (JStr sparse_text)"
            "envelope (JStr sparse_text)" "Some (JStr sparse_text)"
            "[(sparse_text, JObj [(''transcribedText'', JStr ''x''), (''structuredData'', JObj [])])]"
            "''k''" img mime]
    by (simp add: sparse_200_def response_text_envelope)
qed

text \<open>
  The claim as the specification has it, that no schema key is ever missing, fails when
  the backend leaves keys out: an empty \<^verbatim>\<open>structuredData\<close> object is returned empty.
\<close>

theorem C3_counterexample:
  "fst (extractMedicalDataWithGemini sparse_200 ''k'' None ''image/png'')
     = Inr \<lparr>extractedText = Some (JStr ''x''), extractedData = Some (JObj [])\<rparr>
   \<and> \<not> complete_schema (Some (JObj []))"
  by (simp add: sparse_200_extract complete_schema_def has_key_def)

text \<open>
  Claim C10, as amended. When the text parses to a JSON value other than \<^verbatim>\<open>null\<close> that
  has no \<^verbatim>\<open>transcribedText\<close> or no \<^verbatim>\<open>structuredData\<close> property (an array, an object
  with other keys, a number, a string), the extraction succeeds, \<^verbatim>\<open>JSON.parse\<close> being
  its last step, and the field of the result that has no source is \<^verbatim>\<open>undefined\<close>.
\<close>

theorem C10_missing_keys_give_undefined:
  assumes "fetchWithRetry p (gemini_pro_url key) 4 = (Inr r, tr)"
    and "body r = Inr data" and "response_text data = Inr v" and "truthy v"
    and "JSON_parse p (value_to_string (Number_toString p) v) = Inr parsedJson"
    and "parsedJson \<noteq> JNull"
    and "own_prop parsedJson ''transcribedText'' = None
         \<or> own_prop parsedJson ''structuredData'' = None"
  shows "\<exists>res. extractMedicalDataWithGemini p key img mime
                 = (Inr res, tr @ [JsonParse (value_to_string (Number_toString p) v)])
             \<and> (own_prop parsedJson ''transcribedText'' = None \<longrightarrow> extractedText res = None)
             \<and> (own_prop parsedJson ''structuredData'' = None \<longrightarrow> extractedData res = None)"
  using extract_after_fetch [OF assms(1,2,3)] assms(4) parse_extraction_value [OF assms(5,6)]
  by auto

theorem C10_witness:
  "\<exists>res. extractMedicalDataWithGemini array_200 ''k'' None ''image/png''
            = (Inr res, [NetFetch (gemini_pro_url ''k''), JsonParse ''[]''])
        \<and> extractedText res = None \<and> extractedData res = None"
proof -
  have p: "JSON_parse array_200 (value_to_string (Number_toString array_200) (Some (JStr ''[]'')))
             = Inr (JArr [])"
    by (simp add: array_200_def replies_200_simps)
  have f: "fetchWithRetry array_200 (gemini_pro_url ''k'') 4
             = (Inr \<lparr>status = 200, body = Inr (envelope (JStr ''[]''))\<rparr>,
                [NetFetch (gemini_pro_url ''k'')])"
    unfolding array_200_def by (rule fetchWithRetry_replies_200)
  show ?thesis
    using C10_missing_keys_give_undefined
            [OF f _ response_text_envelope _ p, of None "''image/png''"]
    by simp
qed

text \<open>
  The value \<^verbatim>\<open>null\<close> is valid JSON and has neither property, yet the extraction fails on
  it: reading \<^verbatim>\<open>transcribedText\<close> from \<^verbatim>\<open>null\<close> throws inside the \<^verbatim>\<open>try\<close> block, and
  the \<^verbatim>\<open>catch\<close> block answers as it does for text that is not JSON.
\<close>

theorem C10_counterexample:
  "JSON_parse null_200 ''null'' = Inr JNull
   \<and> extractMedicalDataWithGemini null_200 ''k'' None ''image/png''
     = (Inl invalid_json,
        [NetFetch (gemini_pro_url ''k''), JsonParse ''null'',
         ConsoleErrorValue parse_failed_label (Some (JStr ''null''))])"
proof -
  have p: "JSON_parse null_200 ''null'' = Inr JNull"
    by (simp add: null_200_def replies_200_simps)
  have "parse_extraction null_200 (Some (JStr ''null''))
          = (Inl invalid_json, [JsonParse ''null'',
               ConsoleErrorValue parse_failed_label (Some (JStr ''null''))])"
    using parse_extraction_null [of null_200 "Some (JStr ''null'')"] p by simp
  then show ?thesis
    using extract_after_fetch [OF fetchWithRetry_replies_200, of "envelope (JStr ''null'')"
            "envelope (JStr ''null'')" "Some (JStr ''null'')" "[(''null'', JNull)]"
            "''k''" None "''image/png''"] p
    by (simp add: null_200_def response_text_envelope)
qed

section \<open>Claims about the click handlers\<close>

text \<open>
  Claim C8, as amended. When no file is selected, or the API key is the empty string, both
  handlers set the matching error message and return; nothing else changes and there is no
  network call, no file read and no log. The guard asks whether a file is selected, not
  whether it has content.
\<close>

theorem C8_guard_before_network:
  assumes "the_file s = None \<or> apiKey s = []"
  shows "handleProcessClick p s =
           (s\<lparr>errorMessage := (if the_file s = None then ''Please upload a file first.''
                               else ''Please enter your Google AI API key.'')\<rparr>, [])
       \<and> handleProcessClick_twostage p s =
           (s\<lparr>errorMessage := (if the_file s = None then ''Please upload a file first.''
                               else ''Please enter your Google AI API key.'')\<rparr>, [])"
  using assms
  by (auto simp: handleProcessClick_def handleProcessClick_twostage_def split: option.splits)

theorem C8_witness:
  "handleProcessClick sparse_200 (fresh_ui ''k'' None)
     = ((fresh_ui ''k'' None)\<lparr>errorMessage := ''Please upload a file first.''\<rparr>, [])
   \<and> handleProcessClick_twostage sparse_200 (fresh_ui [] (Some empty_document))
     = ((fresh_ui [] (Some empty_document))\<lparr>errorMessage := ''Please enter your Google AI API key.''\<rparr>, [])"
  using C8_guard_before_network [of "fresh_ui ''k'' None" sparse_200]
        C8_guard_before_network [of "fresh_ui [] (Some empty_document)" sparse_200]
  by (simp add: fresh_ui_def)

lemma toBase64_empty_document: "toBase64 sparse_200 empty_document = Inr (Some [])"
  by (simp add: toBase64_def sparse_200_def replies_200_def demo_platform_def empty_document_def)

text \<open>
  The second half of the claim as the specification has it, that an empty document fails
  with no network call, does not hold: a selected file of zero bytes passes the guard, the
  request goes out, and with a backend that answers the run ends without an error message.
\<close>

theorem C8_counterexample:
  "fbytes empty_document = []
   \<and> fetches (snd (handleProcessClick sparse_200 (fresh_ui ''k'' (Some empty_document))))
       = [gemini_pro_url ''k'']
   \<and> errorMessage (fst (handleProcessClick sparse_200 (fresh_ui ''k'' (Some empty_document)))) = []
   \<and> structuredData (fst (handleProcessClick sparse_200 (fresh_ui ''k'' (Some empty_document))))
       = Some (JObj [])"
proof -
  have run: "handleProcessClick sparse_200 (fresh_ui ''k'' (Some empty_document))
      = (finalize ((fresh_ui ''k'' (Some empty_document))
                     \<lparr>errorMessage := [], rawText := Some (JStr []),
                      structuredData := Some JNull, isLoading := True,
                      statusMessage := ''Processing document...'',
                      rawText := Some (JStr ''x''), structuredData := Some (JObj [])\<rparr>),
         [NetFetch (gemini_pro_url ''k''), JsonParse sparse_text])"
    by (simp add: handleProcessClick_def fresh_ui_def toBase64_empty_document
          sparse_200_extract Let_def)
  show ?thesis
    unfolding run by (simp add: finalize_def fresh_ui_def empty_document_def)
qed

text \<open>
  Claim C9. In the two-stage variant neither call is retried. When the Vision endpoint
  answers with a status outside 200..299 (500 and above and 429 included), the OCR step
  fails and its whole effect is the one fetch; likewise for the Gemini endpoint and the
  structuring step. Whatever the answer, each step makes exactly one network call and
  never waits.
\<close>

theorem C9_twostage_no_retry:
  "(fetch p 0 (vision_url key) = Resolves r \<and> \<not> ok r \<longrightarrow>
      (\<exists>e. detectTextWithVisionAPI p key img = (Inl e, [NetFetch (vision_url key)])))
   \<and> (fetch p 1 (gemini_flash_url key) = Resolves r' \<and> \<not> ok r' \<longrightarrow>
      (\<exists>e. extractMedicalDataWithGemini_twostage p key t
              = (Inl e, [NetFetch (gemini_flash_url key)])))
   \<and> fetches (snd (detectTextWithVisionAPI p key img)) = [vision_url key]
   \<and> delays (snd (detectTextWithVisionAPI p key img)) = []
   \<and> fetches (snd (extractMedicalDataWithGemini_twostage p key t)) = [gemini_flash_url key]
   \<and> delays (snd (extractMedicalDataWithGemini_twostage p key t)) = []"
proof -
  have v: "fetch p 0 (vision_url key) = Resolves r \<and> \<not> ok r \<longrightarrow>
      (\<exists>e. detectTextWithVisionAPI p key img = (Inl e, [NetFetch (vision_url key)]))"
    by (auto simp: detectTextWithVisionAPI_def split: sum.splits)
  have g: "fetch p 1 (gemini_flash_url key) = Resolves r' \<and> \<not> ok r' \<longrightarrow>
      (\<exists>e. extractMedicalDataWithGemini_twostage p key t
              = (Inl e, [NetFetch (gemini_flash_url key)]))"
    by (auto simp: extractMedicalDataWithGemini_twostage_def split: sum.splits)
  have v1: "snd (detectTextWithVisionAPI p key img) = [NetFetch (vision_url key)]"
    by (simp add: detectTextWithVisionAPI_def)
  have g1: "fetches (snd (extractMedicalDataWithGemini_twostage p key t)) = [gemini_flash_url key]
          \<and> delays (snd (extractMedicalDataWithGemini_twostage p key t)) = []"
    by (auto simp: extractMedicalDataWithGemini_twostage_def parse_structured_def Let_def
             split: fetch_outcome.splits sum.splits)
  show ?thesis using v g g1 by (simp add: v1)
qed

theorem C9_witness:
  "\<not> ok \<lparr>status = 503, body = Inl ''Unexpected token''\<rparr>
   \<and> (\<exists>e. detectTextWithVisionAPI always_503 ''k'' None = (Inl e, [NetFetch (vision_url ''k'')]))
   \<and> \<not> ok \<lparr>status = 429,
             body = Inr (JObj [(''error'', JObj [(''message'', JStr ''Quota exceeded'')])])\<rparr>
   \<and> (\<exists>e. extractMedicalDataWithGemini_twostage rate_limited ''k'' None
              = (Inl e, [NetFetch (gemini_flash_url ''k'')]))"
proof -
  have a: "fetch always_503 0 (vision_url ''k'')
             = Resolves \<lparr>status = 503, body = Inl ''Unexpected token''\<rparr>"
    by (simp add: always_503_simps)
  have b: "\<And>n. fetch rate_limited n (gemini_flash_url ''k'')
             = Resolves \<lparr>status = 429,
                  body = Inr (JObj [(''error'', JObj [(''message'', JStr ''Quota exceeded'')])])\<rparr>"
    by (simp add: rate_limited_def demo_platform_def)
  show ?thesis
    using C9_twostage_no_retry
            [of always_503 "''k''" "\<lparr>status = 503, body = Inl ''Unexpected token''\<rparr>" None
                "\<lparr>status = 503, body = Inl ''Unexpected token''\<rparr>" None]
          C9_twostage_no_retry
            [of rate_limited "''k''"
                "\<lparr>status = 429,
                  body = Inr (JObj [(''error'', JObj [(''message'', JStr ''Quota exceeded'')])])\<rparr>"
                None
                "\<lparr>status = 429,
                  body = Inr (JObj [(''error'', JObj [(''message'', JStr ''Quota exceeded'')])])\<rparr>"
                None]
    by (simp add: a b ok_def)
qed

end
